theory Spec2Isabelle
  imports Complex_Main "HOL-Library.Sublist" "HOL-Library.Word" "HOL-Library.Log_Nat"
begin

section \<open>JavaScript strings\<close>

text \<open>
  A JavaScript string is modelled as a \<^typ>\<open>string\<close>: a list of 8-bit characters, each standing
  for the UTF-16 code unit of the same number (the Latin-1 range). All string constants of the
  engine lie in that range; the only one beyond ASCII is the section sign U+00A7.
\<close>

definition section_sign :: char where
  "section_sign = CHR 0xA7"

definition newline :: char where
  "newline = CHR 0x0A"

definition apostrophe :: string where
  "apostrophe = [CHR 0x27]"

text \<open>
  \<open>String.prototype.toLowerCase\<close> on the Latin-1 range: the letters A to Z and the
  accented capitals U+00C0 to U+00DE (without the multiplication sign U+00D7) move up by 32.
\<close>

definition lower_char :: "char \<Rightarrow> char" where
  "lower_char c =
     (let n = (of_char c :: nat)
      in if (65 \<le> n \<and> n \<le> 90) \<or> (192 \<le> n \<and> n \<le> 222 \<and> n \<noteq> 215)
         then char_of (n + 32) else c)"

definition toLowerCase :: "string \<Rightarrow> string" where
  "toLowerCase s = map lower_char s"

text \<open>\<open>String.prototype.includes\<close>: \<open>str_includes s t\<close> is the JavaScript \<open>s.includes(t)\<close>.\<close>

fun str_includes :: "string \<Rightarrow> string \<Rightarrow> bool" where
  "str_includes [] t = (t = [])"
| "str_includes (c # cs) t = (prefix t (c # cs) \<or> str_includes cs t)"

text \<open>\<open>Array.prototype.join\<close> on an array of strings.\<close>

fun join :: "string \<Rightarrow> string list \<Rightarrow> string" where
  "join sep [] = []"
| "join sep [x] = x"
| "join sep (x # y # ys) = x @ sep @ join sep (y # ys)"

text \<open>\<open>a || b\<close> on a possibly missing string field: the empty string and \<open>undefined\<close> are falsy.\<close>

definition truthy :: "string option \<Rightarrow> bool" where
  "truthy v = (case v of None \<Rightarrow> False | Some s \<Rightarrow> s \<noteq> [])"

definition or_else :: "string option \<Rightarrow> string \<Rightarrow> string" where
  "or_else v d = (case v of None \<Rightarrow> d | Some s \<Rightarrow> if s = [] then d else s)"

section \<open>The verdict record\<close>

record ValidationStep =
  rule_id :: string
  passed :: bool
  details :: string
  evidence_source :: string
  timestamp :: string
  generated_content :: "string option"

section \<open>The law library\<close>

record statute =
  st_title :: string
  st_text :: string
  st_source :: string

definition LAW_LIBRARY :: "(string \<times> statute) list" where
  \<open>LAW_LIBRARY =
    [(''UCC 3-104'',
      \<lparr>st_title = ''Negotiable Instrument'',
       st_text = ''(a) ...means an unconditional promise or order to pay a fixed amount of money, with or without interest or other charges described in the promise or order, if it: (1) is payable to bearer or to order at the time it is issued or first comes into possession of a holder; (2) is payable on demand or at a definite time; and (3) does not state any other undertaking or instruction...'',
       st_source = ''Uniform Commercial Code '' @ [section_sign] @ '' 3-104''\<rparr>),
     (''UCC 9-203'',
      \<lparr>st_title = ''Attachment and Enforceability of Security Interest'',
       st_text = ''(b) ...a security interest is enforceable against the debtor and third parties with respect to the collateral only if: (1) value has been given; (2) the debtor has rights in the collateral... and (3) one of the following conditions is met: (A) the debtor has authenticated a security agreement that provides a description of the collateral...'',
       st_source = ''Uniform Commercial Code '' @ [section_sign] @ '' 9-203''\<rparr>),
     (''UCC 2-201'',
      \<lparr>st_title = ''Formal Requirements; Statute of Frauds'',
       st_text = ''(1) a contract for the sale of goods for the price of $500 or more is not enforceable by way of action or defense unless there is some writing sufficient to indicate that a contract for sale has been made between the parties and signed by the party against whom enforcement is sought...'',
       st_source = ''Uniform Commercial Code '' @ [section_sign] @ '' 2-201''\<rparr>),
     (''FTC Credit Rule'',
      \<lparr>st_title = ''Unfair Credit Practices'',
       st_text = ''(a) In connection with the extension of credit... it is an unfair act or practice... for a lender or retail installment seller... to take or receive from a consumer an obligation that: (1) Constitutes or contains a cognovit or confession of judgment (for other than purposes of executory process in the State of Louisiana)...'',
       st_source = ''16 CFR '' @ [section_sign] @ '' 444.2''\<rparr>)]\<close>

record statute_result =
  found :: bool
  res_title :: "string option"
  res_text :: "string option"
  citation :: "string option"

text \<open>
  \<open>consultStatute\<close>: the first key, in the order of the table, that the lowercased query
  contains or that contains the lowercased query.
\<close>

definition consultStatute :: "string \<Rightarrow> statute_result" where
  "consultStatute query =
     (case find (\<lambda>k. str_includes (toLowerCase query) (toLowerCase k)
                      \<or> str_includes (toLowerCase k) (toLowerCase query))
                (map fst LAW_LIBRARY) of
        Some key \<Rightarrow>
          (case map_of LAW_LIBRARY key of
             Some st \<Rightarrow> \<lparr>found = True, res_title = Some (st_title st),
                         res_text = Some (st_text st), citation = Some (st_source st)\<rparr>
           | None \<Rightarrow> \<lparr>found = False, res_title = None, res_text = None, citation = None\<rparr>)
      | None \<Rightarrow> \<lparr>found = False, res_title = None, res_text = None, citation = None\<rparr>)"

section \<open>The ordinary-expense checker\<close>

record query_result =
  is_ordinary :: bool
  qsource :: string

definition ordinary_items :: "string list" where
  "ordinary_items = [''truck'', ''hammer'', ''saw'', ''toolbox'', ''work_boots'']"

text \<open>\<open>VerifiableLawDatabaseClient.query\<close>, with the client's endpoint as first argument.\<close>

definition query :: "string \<Rightarrow> string \<Rightarrow> string \<Rightarrow> query_result" where
  "query endpoint naics expense =
     (if naics = ''238350'' \<and> toLowerCase expense \<in> set ordinary_items
      then \<lparr>is_ordinary = True,
            qsource = ''LIVE_QUERY: '' @ endpoint @ ''/section/162a/precedent?naics='' @ naics\<rparr>
      else \<lparr>is_ordinary = False,
            qsource = ''LIVE_QUERY: '' @ endpoint @ ''/section/162a/precedent?naics='' @ naics\<rparr>)"

definition ircDatabase :: string where
  "ircDatabase = ''https://api.law.gov/rac/irc''"

text \<open>
  \<open>verifyOrdinary\<close>. The reading of the clock, \<open>new Date().toISOString()\<close>, is the argument
  \<open>now\<close> here and in every checker below.
\<close>

definition verifyOrdinary :: "string \<Rightarrow> string \<Rightarrow> string \<Rightarrow> ValidationStep" where
  \<open>verifyOrdinary now naics_code expense_item_category =
     (let r = query ircDatabase naics_code expense_item_category
      in \<lparr>rule_id = ''rule_is_ordinary'',
          passed = is_ordinary r,
          details =
            (if is_ordinary r
             then ''PASSED: '' @ apostrophe @ expense_item_category @ apostrophe
                  @ '' is a verifiable "ordinary" expense under IRC Sec 162(a) for NAICS code ''
                  @ naics_code @ ''.''
             else ''FAILED: '' @ apostrophe @ expense_item_category @ apostrophe
                  @ '' is NOT a verifiable "ordinary" expense under IRC Sec 162(a) for NAICS code ''
                  @ naics_code @ ''.''),
          evidence_source = qsource r,
          timestamp = now,
          generated_content = None\<rparr>)\<close>

section \<open>The negotiability checker\<close>

datatype promise_type = conditional | unconditional

datatype amount_type = fixed | variable

datatype payable_to = bearer | order | specific_person

datatype timing = demand | definite | indefinite

record InstrumentTerms =
  promise_type :: promise_type
  amount_type :: amount_type
  currency :: "string option"
  payable_to :: payable_to
  timing :: timing
  other_undertakings :: bool

definition msg_unconditional :: string where
  "msg_unconditional = ''Must be an unconditional promise (UCC 3-104(a))''"

definition msg_fixed :: string where
  "msg_fixed = ''Must specify a fixed amount of money (UCC 3-104(a))''"

definition msg_payable :: string where
  "msg_payable = ''Must be payable to bearer or to order (UCC 3-104(a)(1))''"

definition msg_timing :: string where
  "msg_timing = ''Must be payable on demand or at a definite time (UCC 3-104(a)(2))''"

definition msg_undertaking :: string where
  "msg_undertaking = ''Must not state any other undertaking (UCC 3-104(a)(3))''"

text \<open>The array \<open>failures\<close> after the five \<open>if (...) failures.push(...)\<close> statements.\<close>

definition failures :: "InstrumentTerms \<Rightarrow> string list" where
  "failures terms =
     (if promise_type terms \<noteq> unconditional then [msg_unconditional] else [])
     @ (if amount_type terms \<noteq> fixed then [msg_fixed] else [])
     @ (if payable_to terms = specific_person then [msg_payable] else [])
     @ (if timing terms = indefinite then [msg_timing] else [])
     @ (if other_undertakings terms then [msg_undertaking] else [])"

definition verifyNegotiability :: "string \<Rightarrow> InstrumentTerms \<Rightarrow> ValidationStep" where
  "verifyNegotiability now terms =
     (let statute = consultStatute ''UCC 3-104'';
          ok = (length (failures terms) = 0)
      in \<lparr>rule_id = ''UCC_3_104'',
          passed = ok,
          details =
            (if ok
             then ''PASSED: Instrument meets all UCC 3-104 requirements for negotiability.''
             else ''FAILED: Non-negotiable. Violations: '' @ join '', '' (failures terms)),
          evidence_source = or_else (citation statute) ''UCC 3-104'',
          timestamp = now,
          generated_content = None\<rparr>)"

section \<open>Form generation\<close>

text \<open>
  The argument \<open>data\<close> of \<open>generateVerifiedForm\<close> is the argument object of the
  \<open>draft_verified_form\<close> tool call, whose fields are strings in the tool's schema but for
  the number \<open>amount\<close>. A field is \<open>None\<close> when the object lacks it and otherwise holds
  its string; \<open>amount\<close> holds the text that string interpolation prints for the number,
  and is \<open>None\<close> also for the numbers that count as false (zero and \<open>NaN\<close>).
\<close>

record FormData =
  amount :: "string option"
  date :: "string option"
  lender :: "string option"
  borrower :: "string option"
  state :: "string option"
  collateral :: "string option"
  debtor :: "string option"
  secured_party :: "string option"
  obligation :: "string option"
  seller :: "string option"
  buyer :: "string option"
  goods_description :: "string option"
  client :: "string option"
  contractor :: "string option"
  services :: "string option"

record FormResult =
  markdown :: string
  validation :: ValidationStep

text \<open>A template literal that starts and ends with a line break, given by its lines.\<close>

definition template :: "string list \<Rightarrow> string" where
  "template ls = [newline] @ concat (map (\<lambda>l. l @ [newline]) ls)"

text \<open>\<open>new Date().toISOString().split('T')[0]\<close>: the clock reading up to its first \<open>T\<close>.\<close>

definition today :: "string \<Rightarrow> string" where
  "today now = takeWhile (\<lambda>c. c \<noteq> CHR ''T'') now"

definition promissory_note_markdown :: "FormData \<Rightarrow> string" where
  \<open>promissory_note_markdown data = template
    [''# PROMISSORY NOTE (UCC '' @ [section_sign] @ '' 3-104 Compliant)'',
     [],
     ''**Principal Amount:** $'' @ or_else (amount data) ''___'',
     ''**Date:** '' @ or_else (date data) ''On Demand'',
     [],
     ''FOR VALUE RECEIVED, the undersigned ("Borrower") promises to pay to the order of **''
       @ or_else (lender data) ''___'' @ ''** ("Lender") the principal sum of **$''
       @ or_else (amount data) ''___'' @ ''** USD.'',
     [],
     ''**1. PAYMENT.**'',
     (if truthy (date data)
      then ''Payment shall be made in full on '' @ the (date data) @ ''.''
      else ''Payment shall be made immediately upon demand by Lender.''),
     [],
     ''**2. UNCONDITIONAL PROMISE.**'',
     ''This Note represents an unconditional promise to pay and is not subject to any other agreement.'',
     [],
     ''**3. GOVERNING LAW.**'',
     ''This Note shall be governed by the Uniform Commercial Code as adopted in the State of ''
       @ or_else (state data) ''Delaware'' @ ''.'',
     [],
     ''**4. WAIVERS.**'',
     ''Borrower waives presentment, demand, protest, and notice of dishonor.'',
     [],
     ''**5. EXECUTION.**'',
     ''The parties hereby execute this Note as of the date first written above.'',
     [],
     ''[SIGNATURE_FIELD:Borrower Signature]'',
     ''**'' @ or_else (borrower data) ''Borrower'' @ ''**'',
     [],
     ''[SIGNATURE_FIELD:Lender Signature]'',
     ''**'' @ or_else (lender data) ''Lender'' @ ''**'']\<close>

definition security_agreement_markdown :: "string \<Rightarrow> FormData \<Rightarrow> string" where
  \<open>security_agreement_markdown now data = template
    [''# SECURITY AGREEMENT (UCC Article 9)'',
     [],
     ''This Security Agreement is entered into on **'' @ or_else (date data) (today now)
       @ ''** between **'' @ or_else (debtor data) ''Debtor'' @ ''** ("Debtor") and **''
       @ or_else (secured_party data) ''Secured Party'' @ ''** ("Secured Party").'',
     [],
     ''**1. GRANT OF SECURITY INTEREST.**'',
     ''Debtor hereby grants to Secured Party a security interest in the property described below ("Collateral") to secure the payment and performance of the obligation described as: ''
       @ or_else (obligation data)
           (''Promissory Note dated '' @ or_else (date data) ''even date herewith'') @ ''.'',
     [],
     ''**2. COLLATERAL DESCRIPTION.**'',
     ''The Collateral consists of the following:'',
     ''> '' @ the (collateral data),
     [],
     ''**3. PERFECTION.**'',
     ''Debtor authorizes Secured Party to file a financing statement (UCC-1) to perfect this Security Interest.'',
     [],
     ''**4. DEFAULT.**'',
     ''Upon default, Secured Party shall have all rights and remedies of a secured party under the Uniform Commercial Code of ''
       @ or_else (state data) ''Delaware'' @ ''.'',
     [],
     ''[SIGNATURE_FIELD:Debtor Authentication]'',
     ''**'' @ or_else (debtor data) ''Debtor'' @ ''**'']\<close>

definition security_agreement_blocked :: string where
  "security_agreement_blocked =
     ''> **GENERATION BLOCKED**: UCC 9-203 violation. Security Agreement must reasonably identify the collateral.''"

definition bill_of_sale_markdown :: "string \<Rightarrow> FormData \<Rightarrow> string" where
  \<open>bill_of_sale_markdown now data = template
    [''# BILL OF SALE (UCC Article 2)'',
     [],
     ''**Seller:** '' @ or_else (seller data) ''___'',
     ''**Buyer:** '' @ or_else (buyer data) ''___'',
     ''**Date:** '' @ or_else (date data) (today now),
     ''**Consideration:** $'' @ or_else (amount data) ''___'',
     [],
     ''FOR VALUE RECEIVED, Seller hereby sells, transfers, and conveys to Buyer the following goods (the "Goods"):'',
     [],
     ''**DESCRIPTION OF GOODS:**'',
     or_else (goods_description data) ''[Insert Description and Serial Numbers]'',
     [],
     ''**WARRANTIES:**'',
     ''Seller warrants that they have good and marketable title to the Goods, free of all liens and encumbrances. The Goods are sold "AS-IS" unless otherwise expressly stated.'',
     [],
     ''[SIGNATURE_FIELD:Seller]'',
     ''**'' @ or_else (seller data) ''Seller'' @ ''**'',
     [],
     ''[SIGNATURE_FIELD:Buyer]'',
     ''**'' @ or_else (buyer data) ''Buyer'' @ ''**'']\<close>

definition contractor_agreement_markdown :: "FormData \<Rightarrow> string" where
  \<open>contractor_agreement_markdown data = template
    [''# INDEPENDENT CONTRACTOR AGREEMENT'',
     [],
     ''This Agreement is made between **'' @ or_else (client data) ''Client'' @ ''** and **''
       @ or_else (contractor data) ''Contractor'' @ ''**.'',
     [],
     ''**1. SERVICES.**'',
     ''Contractor agrees to perform the following services:'',
     or_else (services data) ''[Describe Services]'',
     [],
     ''**2. INDEPENDENT CONTRACTOR STATUS.**'',
     ''Contractor is an independent contractor, not an employee. Contractor is responsible for all taxes (including Self-Employment Tax). Client shall not withhold taxes or provide benefits.'',
     [],
     ''**3. WORK FOR HIRE.**'',
     ''All deliverables created under this Agreement shall be considered "Work Made for Hire" and shall be the sole property of the Client.'',
     [],
     ''**4. CONFIDENTIALITY.**'',
     ''Contractor acknowledges access to confidential information and agrees not to disclose such information to third parties.'',
     [],
     ''[SIGNATURE_FIELD:Contractor]'',
     ''**'' @ or_else (contractor data) ''Contractor'' @ ''**'',
     [],
     ''[SIGNATURE_FIELD:Client]'',
     ''**'' @ or_else (client data) ''Client'' @ ''**'']\<close>

text \<open>\<open>data.collateral && data.collateral.length > 3\<close>\<close>

definition hasCollateral :: "FormData \<Rightarrow> bool" where
  "hasCollateral data = (truthy (collateral data) \<and> length (the (collateral data)) > 3)"

definition generateVerifiedForm :: "string \<Rightarrow> string \<Rightarrow> FormData \<Rightarrow> FormResult" where
  "generateVerifiedForm now form_type data =
     (if form_type = ''promissory_note_ucc'' then
        (let check = verifyNegotiability now
               \<lparr>promise_type = unconditional, amount_type = fixed, currency = Some ''USD'',
                payable_to = order,
                timing = (if truthy (date data) then definite else demand),
                other_undertakings = False\<rparr>
         in if passed check
            then \<lparr>markdown = promissory_note_markdown data, validation = check\<rparr>
            else \<lparr>markdown = ''> **GENERATION BLOCKED**: Protocol Violation.'' @ [newline]
                               @ ''> Reason: '' @ details check,
                  validation = check\<rparr>)
      else if form_type = ''security_agreement_ucc'' then
        (if hasCollateral data
         then (let law = consultStatute ''UCC 9-203''
               in \<lparr>markdown = security_agreement_markdown now data,
                   validation =
                     \<lparr>rule_id = ''UCC_9_203'', passed = True,
                      details = ''PASSED: Contains granting clause and collateral description (UCC 9-203).'',
                      evidence_source = or_else (citation law) ''UCC Article 9'',
                      timestamp = now, generated_content = None\<rparr>\<rparr>)
         else \<lparr>markdown = security_agreement_blocked,
               validation =
                 \<lparr>rule_id = ''UCC_9_203'', passed = False,
                  details = ''FAILED: Missing sufficient description of Collateral (UCC 9-108).'',
                  evidence_source = ''UCC Article 9'',
                  timestamp = now, generated_content = None\<rparr>\<rparr>)
      else if form_type = ''bill_of_sale_ucc'' then
        \<lparr>markdown = bill_of_sale_markdown now data,
         validation =
           \<lparr>rule_id = ''UCC_2_201'', passed = True,
            details = ''PASSED: Written memorandum of sale (UCC 2-201).'',
            evidence_source = ''UCC Article 2'',
            timestamp = now, generated_content = None\<rparr>\<rparr>
      else if form_type = ''contractor_agreement'' then
        \<lparr>markdown = contractor_agreement_markdown data,
         validation =
           \<lparr>rule_id = ''COMMON_LAW_AGENCY'', passed = True,
            details = ''PASSED: Explicitly defines Independent Contractor relationship.'',
            evidence_source = ''IRS Common Law Rules'',
            timestamp = now, generated_content = None\<rparr>\<rparr>
      else
        \<lparr>markdown = [],
         validation =
           \<lparr>rule_id = ''FORM_GEN'', passed = False, details = ''Unknown form type'',
            evidence_source = ''System'', timestamp = now, generated_content = None\<rparr>\<rparr>)"

section \<open>JavaScript numbers\<close>

text \<open>
  A number is one of the special values of IEEE 754 or a finite value, given by the rational
  it denotes; \<open>Finite 0\<close> is the positive zero. The finite doubles are the values
  \<open>dbl m e\<close> whose mantissa \<open>m\<close> is below \<open>2^53\<close> in absolute value and whose exponent
  \<open>e\<close> lies between \<open>-1074\<close> and \<open>971\<close>. Division and multiplication round the exact
  result to the nearest double, to the one with the even mantissa at a tie.
\<close>

datatype number = NaN | PosInfinity | NegInfinity | NegZero | Finite rat

fun sign_bit :: "number \<Rightarrow> bool" where
  "sign_bit NaN = False"
| "sign_bit PosInfinity = False"
| "sign_bit NegInfinity = True"
| "sign_bit NegZero = True"
| "sign_bit (Finite q) = (q < 0)"

fun is_infinite :: "number \<Rightarrow> bool" where
  "is_infinite PosInfinity = True"
| "is_infinite NegInfinity = True"
| "is_infinite _ = False"

fun fin_val :: "number \<Rightarrow> rat" where
  "fin_val (Finite q) = q"
| "fin_val _ = 0"

definition is_zero :: "number \<Rightarrow> bool" where
  "is_zero x = (x = NegZero \<or> x = Finite 0)"

definition infinity_of :: "bool \<Rightarrow> number" where
  "infinity_of neg = (if neg then NegInfinity else PosInfinity)"

definition zero_of :: "bool \<Rightarrow> number" where
  "zero_of neg = (if neg then NegZero else Finite 0)"

definition dbl :: "int \<Rightarrow> int \<Rightarrow> rat" where
  "dbl m e = of_int m * 2 powi e"

text \<open>The exponent of a positive rational: the largest \<open>k\<close> with \<open>2^k \<le> y\<close>.\<close>

definition floor_log2 :: "rat \<Rightarrow> int" where
  "floor_log2 y =
     (let d = bitlen (fst (quotient_of y)) - bitlen (snd (quotient_of y))
      in if 2 powi d \<le> y then d else d - 1)"

text \<open>The nearest integer, the even one at a tie.\<close>

definition round_half_even :: "rat \<Rightarrow> int" where
  "round_half_even t =
     (let f = \<lfloor>t\<rfloor>; r = t - of_int f
      in if r < 1 / 2 then f
         else if 1 / 2 < r then f + 1
         else if even f then f else f + 1)"

text \<open>
  Rounding to binary64: the mantissa has 53 bits, or fewer below \<open>2^-1022\<close> where the
  exponent stays at \<open>-1074\<close>; a result of \<open>2^1024\<close> or more is an infinity, a result
  that rounds to nothing is a zero, both with the sign of the exact value.
\<close>

definition round64 :: "rat \<Rightarrow> number" where
  "round64 x =
     (if x = 0 then Finite 0
      else let neg = (x < 0);
               y = \<bar>x\<bar>;
               e = max (floor_log2 y - 52) (- 1074);
               m = round_half_even (y / 2 powi e);
               v = of_int m * 2 powi e
           in if 2 ^ 1024 \<le> v then infinity_of neg
              else if m = 0 then zero_of neg
              else Finite (if neg then - v else v))"

text \<open>The operator \<open>/\<close>.\<close>

definition js_div :: "number \<Rightarrow> number \<Rightarrow> number" where
  "js_div a b =
     (if a = NaN \<or> b = NaN then NaN
      else let neg = (sign_bit a \<noteq> sign_bit b)
           in if is_infinite a then (if is_infinite b then NaN else infinity_of neg)
              else if is_infinite b then zero_of neg
              else if is_zero b then (if is_zero a then NaN else infinity_of neg)
              else if is_zero a then zero_of neg
              else round64 (fin_val a / fin_val b))"

text \<open>The operator \<open>*\<close>.\<close>

definition js_mul :: "number \<Rightarrow> number \<Rightarrow> number" where
  "js_mul a b =
     (if a = NaN \<or> b = NaN then NaN
      else let neg = (sign_bit a \<noteq> sign_bit b)
           in if is_infinite a \<or> is_infinite b
              then (if is_zero a \<or> is_zero b then NaN else infinity_of neg)
              else if is_zero a \<or> is_zero b then zero_of neg
              else round64 (fin_val a * fin_val b))"

text \<open>The operator \<open><=\<close>: false when an operand is \<open>NaN\<close>; the two zeros are equal.\<close>

definition js_le :: "number \<Rightarrow> number \<Rightarrow> bool" where
  "js_le a b =
     (a \<noteq> NaN \<and> b \<noteq> NaN \<and>
      (a = NegInfinity \<or> b = PosInfinity \<or>
       (\<not> is_infinite a \<and> \<not> is_infinite b \<and> fin_val a \<le> fin_val b)))"

text \<open>Decimal digits of a natural number.\<close>

definition digit_char :: "nat \<Rightarrow> char" where
  "digit_char d = char_of (48 + d)"

fun digits :: "nat \<Rightarrow> string" where
  "digits n = (if n < 10 then [digit_char n] else digits (n div 10) @ [digit_char (n mod 10)])"

text \<open>
  \<open>x.toFixed(1)\<close>: the sign, then the integer \<open>n\<close> for which \<open>n / 10\<close> is nearest to the
  absolute value (the larger one at a tie), printed with one decimal. The values that are not
  finite print as \<open>Number.prototype.toString\<close> prints them. From \<open>10^21\<close> on JavaScript prints in
  exponent notation, which this function does not model.
\<close>

definition toFixed1 :: "number \<Rightarrow> string" where
  "toFixed1 x =
     (case x of
        NaN \<Rightarrow> ''NaN''
      | PosInfinity \<Rightarrow> ''Infinity''
      | NegInfinity \<Rightarrow> ''-Infinity''
      | NegZero \<Rightarrow> ''0.0''
      | Finite q \<Rightarrow>
          (let n = nat \<lfloor>\<bar>q\<bar> * 10 + 1 / 2\<rfloor>
           in (if q < 0 then ''-'' else []) @ digits (n div 10) @ ''.'' @ digits (n mod 10)))"

section \<open>The necessity checker\<close>

text \<open>
  The outcome of a call: \<open>Inr\<close> a value when the promise resolves, \<open>Inl\<close> the error when it
  throws. \<open>InvalidArgument\<close> is the specification's name for a rejected argument.
\<close>

datatype js_error = SyntaxError | TypeError | InvalidArgument

definition necessity_verdict :: "string \<Rightarrow> number \<Rightarrow> number \<Rightarrow> ValidationStep" where
  "necessity_verdict now expense_amount business_revenue =
     (let ratio = js_div expense_amount business_revenue;
          is_necessary = js_le ratio (Finite (1 / 2));
          src = ''Business Logic (Ratio Analysis)''
      in \<lparr>rule_id = ''rule_is_necessary'',
          passed = is_necessary,
          details =
            (if is_necessary
             then ''PASSED: Expense-to-Revenue ratio is '' @ toFixed1 (js_mul ratio (Finite 100))
                  @ ''% (within 50% threshold).''
             else ''FAILED: Expense-to-Revenue ratio is '' @ toFixed1 (js_mul ratio (Finite 100))
                  @ ''% (exceeds 50% threshold).''),
          evidence_source = src,
          timestamp = now,
          generated_content = None\<rparr>)"

text \<open>\<open>verifyNecessary\<close> of the engine: its body has no \<open>throw\<close>, so every call resolves.\<close>

definition verifyNecessary :: "string \<Rightarrow> number \<Rightarrow> number \<Rightarrow> js_error + ValidationStep" where
  "verifyNecessary now expense_amount business_revenue =
     Inr (necessity_verdict now expense_amount business_revenue)"

text \<open>\<open>isNecessaryTool.execute\<close> of the auditor package: the same statements.\<close>

definition isNecessaryTool_execute :: "string \<Rightarrow> number \<Rightarrow> number \<Rightarrow> js_error + ValidationStep" where
  "isNecessaryTool_execute now expense_amount business_revenue =
     Inr (necessity_verdict now expense_amount business_revenue)"

section \<open>The audit ledger\<close>

datatype entry_source = Advisor | Studio | System | Arbiter

datatype entry_status = Verified | Pending | Error | Refining

record ArbiterMetadata =
  refinementIterations :: "number option"
  criticScore :: "number option"
  complianceCheck :: "bool option"
  latencyMs :: "number option"

record AuditEntry =
  entry_id :: string
  entry_timestamp :: nat
  action :: string
  entry_details :: string
  entry_source :: entry_source
  status :: entry_status
  hash :: string
  metadata :: "ArbiterMetadata option"

text \<open>
  What one call reads from its surroundings: the clock in milliseconds (\<open>Date.now()\<close>), and
  the two random suffixes, \<open>Math.random().toString(36).substr(2, 5)\<close> for the id and
  \<open>Math.random().toString(16).substr(2, 8)\<close> for the hash.
\<close>

record surroundings =
  now_ms :: nat
  random36 :: string
  random16 :: string

definition hex_char :: "nat \<Rightarrow> char" where
  "hex_char d = (if d < 10 then char_of (48 + d) else char_of (87 + d))"

fun to_hex :: "nat \<Rightarrow> string" where
  "to_hex n = (if n < 16 then [hex_char n] else to_hex (n div 16) @ [hex_char (n mod 16)])"

definition padStart :: "nat \<Rightarrow> char \<Rightarrow> string \<Rightarrow> string" where
  "padStart n c s = replicate (n - length s) c @ s"

text \<open>
  The loop of \<open>generateHash\<close>: \<open>hash = (hash << 5) - hash + char; hash = hash & hash\<close> keeps
  a signed 32-bit integer.
\<close>

definition hash_step :: "32 word \<Rightarrow> char \<Rightarrow> 32 word" where
  "hash_step h c = push_bit 5 h - h + of_nat (of_char c)"

definition generateHash :: "string \<Rightarrow> string \<Rightarrow> string" where
  "generateHash str rnd =
     ''0x'' @ padStart 16 (CHR ''0'') (to_hex (nat \<bar>sint (foldl hash_step 0 str)\<bar>)) @ rnd"

definition genesis :: "surroundings \<Rightarrow> AuditEntry" where
  "genesis env =
     \<lparr>entry_id = ''genesis'', entry_timestamp = now_ms env,
      action = ''ArbiterOS Initialization'',
      entry_details = ''Governance ledger instantiated. Constitution loaded.'',
      entry_source = System, status = Verified,
      hash = generateHash ''genesis-block-governance'' (random16 env),
      metadata = Some \<lparr>refinementIterations = None, criticScore = Some (Finite 1),
                        complianceCheck = Some True, latencyMs = None\<rparr>\<rparr>"

text \<open>
  \<open>addEntry\<close>: the state update \<open>setEntries(prev => [newEntry, ...prev])\<close> on the list of
  entries. An omitted \<open>status\<close> is \<open>Verified\<close>.
\<close>

definition addEntry ::
  "surroundings \<Rightarrow> string \<Rightarrow> string \<Rightarrow> entry_source \<Rightarrow> entry_status option
     \<Rightarrow> ArbiterMetadata option \<Rightarrow> AuditEntry list \<Rightarrow> AuditEntry list" where
  "addEntry env act det src st meta prev =
     (let newEntry =
            \<lparr>entry_id = digits (now_ms env) @ random36 env,
             entry_timestamp = now_ms env,
             action = act,
             entry_details = det,
             entry_source = src,
             status = (case st of None \<Rightarrow> Verified | Some s \<Rightarrow> s),
             hash = generateHash (act @ det @ digits (now_ms env)) (random16 env),
             metadata = meta\<rparr>
      in newEntry # prev)"

definition clearLog :: "surroundings \<Rightarrow> AuditEntry list \<Rightarrow> AuditEntry list" where
  "clearLog env prev =
     [\<lparr>entry_id = ''reboot-'' @ digits (now_ms env),
       entry_timestamp = now_ms env,
       action = ''System Reboot'',
       entry_details = ''Audit Ledger flushed by user command. Clean state initialized.'',
       entry_source = System, status = Verified,
       hash = generateHash (''reboot-'' @ digits (now_ms env)) (random16 env),
       metadata = Some \<lparr>refinementIterations = None, criticScore = Some (Finite 1),
                         complianceCheck = Some True, latencyMs = None\<rparr>\<rparr>]"

section \<open>JSON.parse\<close>

text \<open>
  The value \<open>JSON.parse\<close> returns. A string is kept as its UTF-16 code units, since an escape
  \<open>\uXXXX\<close> can name any of them; a number is kept as the literal that was read; an object
  is kept as its members in the order of the text.
\<close>

datatype json =
    JNull
  | JBool bool
  | JNumber string
  | JString "nat list"
  | JArray "json list"
  | JObject "(nat list \<times> json) list"

datatype token =
    TLBrace | TRBrace | TLBracket | TRBracket | TColon | TComma
  | TString "nat list" | TNumber string | TTrue | TFalse | TNull

definition is_ws :: "char \<Rightarrow> bool" where
  "is_ws c = (c = CHR 0x20 \<or> c = CHR 0x09 \<or> c = CHR 0x0A \<or> c = CHR 0x0D)"

definition is_digit :: "char \<Rightarrow> bool" where
  "is_digit c = (48 \<le> (of_char c :: nat) \<and> (of_char c :: nat) \<le> 57)"

definition hex_val :: "char \<Rightarrow> nat option" where
  "hex_val c =
     (let n = (of_char c :: nat)
      in if 48 \<le> n \<and> n \<le> 57 then Some (n - 48)
         else if 97 \<le> n \<and> n \<le> 102 then Some (n - 87)
         else if 65 \<le> n \<and> n \<le> 70 then Some (n - 55)
         else None)"

text \<open>The code unit of a one-character escape: \<open>\" \\ \/ \b \f \n \r \t\<close>.\<close>

definition escape_val :: "char \<Rightarrow> nat option" where
  "escape_val e =
     (if e = CHR 0x22 then Some 34
      else if e = CHR 0x5C then Some 92
      else if e = CHR ''/'' then Some 47
      else if e = CHR ''b'' then Some 8
      else if e = CHR ''f'' then Some 12
      else if e = CHR ''n'' then Some 10
      else if e = CHR ''r'' then Some 13
      else if e = CHR ''t'' then Some 9
      else None)"

text \<open>
  The rest of a string literal after its opening quote: the code units up to the closing
  quote, and the text after it. A control character below U+0020, an unknown escape and a
  missing closing quote are syntax errors.
\<close>

fun lex_string :: "string \<Rightarrow> nat list \<Rightarrow> (nat list \<times> string) option" where
  "lex_string [] acc = None"
| "lex_string (c # cs) acc =
     (if c = CHR 0x22 then Some (rev acc, cs)
      else if c = CHR 0x5C then
        (case cs of
           [] \<Rightarrow> None
         | e # cs' \<Rightarrow>
             if e = CHR ''u'' then
               (case cs' of
                  h1 # h2 # h3 # h4 # rest \<Rightarrow>
                    (case (hex_val h1, hex_val h2, hex_val h3, hex_val h4) of
                       (Some a, Some b, Some c, Some d) \<Rightarrow>
                         lex_string rest ((((a * 16 + b) * 16 + c) * 16 + d) # acc)
                     | _ \<Rightarrow> None)
                | _ \<Rightarrow> None)
             else (case escape_val e of
                     Some v \<Rightarrow> lex_string cs' (v # acc)
                   | None \<Rightarrow> None))
      else if (of_char c :: nat) < 32 then None
      else lex_string cs (of_char c # acc))"

text \<open>The fraction of a number, if one starts here: a point and at least one digit.\<close>

definition lex_fraction :: "string \<Rightarrow> (string \<times> string) option" where
  "lex_fraction s =
     (case s of
        [] \<Rightarrow> Some ([], s)
      | c # r \<Rightarrow>
          if c = CHR ''.''
          then (if takeWhile is_digit r = [] then None
                else Some (c # takeWhile is_digit r, dropWhile is_digit r))
          else Some ([], s))"

text \<open>The exponent of a number, if one starts here: \<open>e\<close> or \<open>E\<close>, a sign or none, digits.\<close>

definition lex_exponent :: "string \<Rightarrow> (string \<times> string) option" where
  "lex_exponent s =
     (case s of
        [] \<Rightarrow> Some ([], s)
      | c # r \<Rightarrow>
          if c = CHR ''e'' \<or> c = CHR ''E''
          then (let sg = (case r of
                            [] \<Rightarrow> []
                          | d # r2 \<Rightarrow> if d = CHR ''+'' \<or> d = CHR ''-'' then [d] else []);
                    r' = drop (length sg) r
                in if takeWhile is_digit r' = [] then None
                   else Some (c # sg @ takeWhile is_digit r', dropWhile is_digit r'))
          else Some ([], s))"

text \<open>
  A number literal: a minus sign or none, then \<open>0\<close> or a digit from 1 to 9 with more digits,
  then a fraction or none, then an exponent or none.
\<close>

definition lex_number :: "string \<Rightarrow> (string \<times> string) option" where
  "lex_number s =
     (let sg = (case s of [] \<Rightarrow> [] | c # r \<Rightarrow> if c = CHR ''-'' then [c] else []);
          s1 = drop (length sg) s
      in case s1 of
           [] \<Rightarrow> None
         | c # r \<Rightarrow>
             if \<not> is_digit c then None
             else
               (let ip = (if c = CHR ''0'' then [c] else takeWhile is_digit s1);
                    s2 = drop (length ip) s1
                in case lex_fraction s2 of
                     None \<Rightarrow> None
                   | Some (fp, s3) \<Rightarrow>
                       (case lex_exponent s3 of
                          None \<Rightarrow> None
                        | Some (ep, s4) \<Rightarrow> Some (sg @ ip @ fp @ ep, s4))))"

function tokenize :: "string \<Rightarrow> token list option" where
  "tokenize [] = Some []"
| "tokenize (c # cs) =
     (if is_ws c then tokenize cs
      else if c = CHR ''{'' then map_option (Cons TLBrace) (tokenize cs)
      else if c = CHR ''}'' then map_option (Cons TRBrace) (tokenize cs)
      else if c = CHR ''['' then map_option (Cons TLBracket) (tokenize cs)
      else if c = CHR '']'' then map_option (Cons TRBracket) (tokenize cs)
      else if c = CHR '':'' then map_option (Cons TColon) (tokenize cs)
      else if c = CHR '','' then map_option (Cons TComma) (tokenize cs)
      else if c = CHR 0x22 then
        (case lex_string cs [] of
           None \<Rightarrow> None
         | Some (s, rest) \<Rightarrow> map_option (Cons (TString s)) (tokenize rest))
      else if c = CHR ''-'' \<or> is_digit c then
        (case lex_number (c # cs) of
           None \<Rightarrow> None
         | Some (lx, rest) \<Rightarrow> map_option (Cons (TNumber lx)) (tokenize rest))
      else if prefix ''true'' (c # cs) then map_option (Cons TTrue) (tokenize (drop 3 cs))
      else if prefix ''false'' (c # cs) then map_option (Cons TFalse) (tokenize (drop 4 cs))
      else if prefix ''null'' (c # cs) then map_option (Cons TNull) (tokenize (drop 3 cs))
      else None)"
  by pat_completeness auto
termination
proof (relation "measure length")
  have str: "lex_string s acc = Some (v, rest) \<Longrightarrow> length rest < Suc (length s)"
    for s acc v rest
  proof (induction s acc rule: lex_string.induct)
    case (1 acc)
    then show ?case by simp
  next
    case (2 c cs acc)
    show ?case
    proof (cases "c = CHR 0x22")
      case True
      with 2 show ?thesis by simp
    next
      case nq: False
      show ?thesis
      proof (cases "c = CHR 0x5C")
        case False
        with nq 2 show ?thesis by (auto split: if_splits)
      next
        case bs: True
        show ?thesis
        proof (cases cs)
          case Nil
          with nq bs 2 show ?thesis by simp
        next
          case (Cons e cs')
          show ?thesis
          proof (cases "e = CHR ''u''")
            case nu: False
            from "2.prems" nq bs Cons nu obtain x where
              ev: "escape_val e = Some x" and rec: "lex_string cs' (x # acc) = Some (v, rest)"
              by (auto split: option.splits)
            have "length rest < Suc (length cs')"
              using "2.IH"(2) nq bs Cons nu ev rec by blast
            with Cons show ?thesis by simp
          next
            case u: True
            from "2.prems" nq bs Cons u obtain h1 h2 h3 h4 r a b c' d where
              cs': "cs' = h1 # h2 # h3 # h4 # r" and
              h: "hex_val h1 = Some a" "hex_val h2 = Some b"
                 "hex_val h3 = Some c'" "hex_val h4 = Some d" and
              rec: "lex_string r ((((a * 16 + b) * 16 + c') * 16 + d) # acc) = Some (v, rest)"
              by (auto split: list.splits option.splits)
            have "length rest < Suc (length r)"
              using "2.IH"(1) nq bs Cons u cs' h rec by blast
            with Cons cs' show ?thesis by simp
          qed
        qed
      qed
    qed
  qed
  have frac: "lex_fraction s = Some (l, rest) \<Longrightarrow> length rest \<le> length s" for s l rest
    by (auto simp: lex_fraction_def split: list.splits if_splits
             intro: le_trans [OF length_dropWhile_le])
  have expo: "lex_exponent s = Some (l, rest) \<Longrightarrow> length rest \<le> length s" for s l rest
    by (auto simp: lex_exponent_def Let_def split: list.splits if_splits
             intro: le_trans [OF length_dropWhile_le])
  have num: "lex_number (c # cs) = Some (l, rest) \<Longrightarrow> length rest < Suc (length cs)"
    for c cs l rest
  proof -
    assume a: "lex_number (c # cs) = Some (l, rest)"
    define sg where "sg = (if c = CHR ''-'' then [c] else [])"
    define s1 where "s1 = drop (length sg) (c # cs)"
    from a obtain d r where s1: "s1 = d # r" and dig: "is_digit d"
      by (auto simp: lex_number_def sg_def s1_def Let_def split: list.splits if_splits)
    define ip where "ip = (if d = CHR ''0'' then [d] else takeWhile is_digit s1)"
    define s2 where "s2 = drop (length ip) s1"
    have ip_pos: "0 < length ip"
      using s1 dig by (auto simp: ip_def)
    have s2_less: "length s2 < length s1"
      using ip_pos s1 by (auto simp: s2_def)
    from a s1 dig obtain fp s3 ep where
      f: "lex_fraction s2 = Some (fp, s3)" and e: "lex_exponent s3 = Some (ep, rest)"
      by (auto simp: lex_number_def sg_def [symmetric] s1_def [symmetric] ip_def s2_def Let_def
               split: option.splits if_splits)
    have "length rest \<le> length s2"
      using frac [OF f] expo [OF e] by simp
    moreover have "length s1 \<le> Suc (length cs)"
      by (simp add: s1_def)
    ultimately show ?thesis
      using s2_less by simp
  qed
  show "wf (measure length)"
    by simp
  show "(rest, c # cs) \<in> measure length"
    if "lex_string cs [] = Some x" "(s, rest) = x" for c cs x s rest
    using that str [of cs "[]" s rest] by auto
  show "(rest, c # cs) \<in> measure length"
    if "lex_number (c # cs) = Some x" "(lx, rest) = x" for c cs x lx rest
    using that num [of c cs lx rest] by auto
qed auto

text \<open>
  The parser reads the tokens from left to right and keeps the containers that are still
  open on a stack: an array with its elements so far, an object with its members so far, or
  an object whose next member has its key and waits for its value (lists in reverse order).
\<close>

datatype frame =
    FArray "json list"
  | FObject "(nat list \<times> json) list"
  | FMember "(nat list \<times> json) list" "nat list"

datatype pmode =
    WantValue | WantValueOrClose | WantKey | WantKeyOrClose | WantColon | WantSep
  | Complete json

text \<open>A finished value goes to the innermost open container, or is the result.\<close>

fun deliver :: "json \<Rightarrow> frame list \<Rightarrow> (frame list \<times> pmode) option" where
  "deliver v [] = Some ([], Complete v)"
| "deliver v (FArray els # st) = Some (FArray (v # els) # st, WantSep)"
| "deliver v (FMember mems k # st) = Some (FObject ((k, v) # mems) # st, WantSep)"
| "deliver v (FObject mems # st) = None"

fun scalar :: "token \<Rightarrow> json option" where
  "scalar (TString s) = Some (JString s)"
| "scalar (TNumber n) = Some (JNumber n)"
| "scalar TTrue = Some (JBool True)"
| "scalar TFalse = Some (JBool False)"
| "scalar TNull = Some JNull"
| "scalar _ = None"

definition open_value :: "bool \<Rightarrow> frame list \<Rightarrow> token \<Rightarrow> (frame list \<times> pmode) option" where
  "open_value may_close st t =
     (if t = TLBracket then Some (FArray [] # st, WantValueOrClose)
      else if t = TLBrace then Some (FObject [] # st, WantKeyOrClose)
      else if t = TRBracket then
        (case st of
           FArray els # st' \<Rightarrow> if may_close then deliver (JArray (rev els)) st' else None
         | _ \<Rightarrow> None)
      else (case scalar t of Some v \<Rightarrow> deliver v st | None \<Rightarrow> None))"

definition open_key :: "bool \<Rightarrow> frame list \<Rightarrow> token \<Rightarrow> (frame list \<times> pmode) option" where
  "open_key may_close st t =
     (case st of
        FObject mems # st' \<Rightarrow>
          (case t of
             TString k \<Rightarrow> Some (FMember mems k # st', WantColon)
           | TRBrace \<Rightarrow> if may_close then deliver (JObject (rev mems)) st' else None
           | _ \<Rightarrow> None)
      | _ \<Rightarrow> None)"

definition after_value :: "frame list \<Rightarrow> token \<Rightarrow> (frame list \<times> pmode) option" where
  "after_value st t =
     (case st of
        FArray els # st' \<Rightarrow>
          if t = TComma then Some (st, WantValue)
          else if t = TRBracket then deliver (JArray (rev els)) st'
          else None
      | FObject mems # st' \<Rightarrow>
          if t = TComma then Some (st, WantKey)
          else if t = TRBrace then deliver (JObject (rev mems)) st'
          else None
      | _ \<Rightarrow> None)"

fun step :: "frame list \<times> pmode \<Rightarrow> token \<Rightarrow> (frame list \<times> pmode) option" where
  "step (st, WantValue) t = open_value False st t"
| "step (st, WantValueOrClose) t = open_value True st t"
| "step (st, WantKey) t = open_key False st t"
| "step (st, WantKeyOrClose) t = open_key True st t"
| "step (st, WantColon) t = (if t = TColon then Some (st, WantValue) else None)"
| "step (st, WantSep) t = after_value st t"
| "step (st, Complete v) t = None"

fun run :: "frame list \<times> pmode \<Rightarrow> token list \<Rightarrow> (frame list \<times> pmode) option" where
  "run s [] = Some s"
| "run s (t # ts) = (case step s t of None \<Rightarrow> None | Some s' \<Rightarrow> run s' ts)"

definition JSON_parse :: "string \<Rightarrow> js_error + json" where
  "JSON_parse txt =
     (case tokenize txt of
        None \<Rightarrow> Inl SyntaxError
      | Some ts \<Rightarrow>
          (case run ([], WantValue) ts of
             Some ([], Complete v) \<Rightarrow> Inr v
           | _ \<Rightarrow> Inl SyntaxError))"

text \<open>
  The property read \<open>output.passed\<close>: a type error on \<open>null\<close>, the member of that name on
  an object (the last one when the text repeats the key), \<open>undefined\<close> on every other value.
\<close>

definition key_passed :: "nat list" where
  "key_passed = map of_char ''passed''"

fun get_passed :: "json \<Rightarrow> js_error + json option" where
  "get_passed JNull = Inl TypeError"
| "get_passed (JObject mems) = Inr (map_of (rev mems) key_passed)"
| "get_passed _ = Inr None"

section \<open>The policy gate of the auditor package\<close>

record history_item =
  item_type :: string
  item_name :: string
  item_output :: string

definition is_ordinary_result :: "history_item \<Rightarrow> bool" where
  "is_ordinary_result item =
     (item_type item = ''function_call_result'' \<and> item_name item = ''is_ordinary_rule_checker'')"

text \<open>\<open>Array.prototype.pop\<close> on a fresh array: its last element, \<open>undefined\<close> when empty.\<close>

definition pop :: "'a list \<Rightarrow> 'a option" where
  "pop xs = (if xs = [] then None else Some (last xs))"

text \<open>
  \<open>isNecessaryEnabled\<close>. The history of the run context is \<open>None\<close> when the context has no
  such property (\<open>history?.filter\<close> then yields \<open>undefined\<close>).
\<close>

definition isNecessaryEnabled :: "history_item list option \<Rightarrow> js_error + bool" where
  "isNecessaryEnabled history =
     (case (case history of None \<Rightarrow> None | Some h \<Rightarrow> pop (filter is_ordinary_result h)) of
        None \<Rightarrow> Inr False
      | Some ordinaryResult \<Rightarrow>
          if item_type ordinaryResult = ''function_call_result''
          then (case JSON_parse (item_output ordinaryResult) of
                  Inl e \<Rightarrow> Inl e
                | Inr out \<Rightarrow>
                    (case get_passed out of
                       Inl e \<Rightarrow> Inl e
                     | Inr p \<Rightarrow> if p = Some (JBool True) then Inr True else Inr False))
          else Inr False)"

section \<open>The policy state of the chat service\<close>

record toolsPolicyState =
  ordinaryPassed :: bool

definition getAllowedTools :: "toolsPolicyState \<Rightarrow> string list" where
  "getAllowedTools st =
     [''verify_ordinary'', ''verify_negotiability'', ''analyze_clause_risks'',
      ''draft_verified_form'', ''consult_statute'']
     @ (if ordinaryPassed st then [''verify_necessary''] else [])"

text \<open>
  One \<open>verify_ordinary\<close> call of the tool loop, with its arguments \<open>naics_code\<close> and
  \<open>expense_item\<close>: \<open>if (result.passed) toolsPolicyState.ordinaryPassed = true\<close>.
\<close>

definition ordinary_call :: "string \<Rightarrow> toolsPolicyState \<Rightarrow> string \<times> string \<Rightarrow> toolsPolicyState" where
  "ordinary_call now st args =
     (let result = verifyOrdinary now (fst args) (snd args)
      in if passed result then st\<lparr>ordinaryPassed := True\<rparr> else st)"

text \<open>The policy state after the \<open>verify_ordinary\<close> calls of one message, in their order.\<close>

definition policy_after :: "string \<Rightarrow> (string \<times> string) list \<Rightarrow> toolsPolicyState" where
  "policy_after now calls = foldl (ordinary_call now) \<lparr>ordinaryPassed = False\<rparr> calls"

section \<open>Inputs of the examples\<close>

text \<open>An instrument that violates all five conditions of the negotiability checker.\<close>

definition all_five_violated :: InstrumentTerms where
  "all_five_violated =
     \<lparr>promise_type = conditional, amount_type = variable, currency = None,
      payable_to = specific_person, timing = indefinite, other_undertakings = True\<rparr>"

text \<open>An instrument that meets all five: payable to bearer, on demand.\<close>

definition compliant_bearer_note :: InstrumentTerms where
  "compliant_bearer_note =
     \<lparr>promise_type = unconditional, amount_type = fixed, currency = Some ''USD'',
      payable_to = bearer, timing = demand, other_undertakings = False\<rparr>"

text \<open>The terms that \<open>generateVerifiedForm\<close> hands to the negotiability checker.\<close>

definition note_terms :: "FormData \<Rightarrow> InstrumentTerms" where
  "note_terms data =
     \<lparr>promise_type = unconditional, amount_type = fixed, currency = Some ''USD'',
      payable_to = order,
      timing = (if truthy (date data) then definite else demand),
      other_undertakings = False\<rparr>"

text \<open>An argument object without fields, and one whose only field is an empty collateral.\<close>

definition no_fields :: FormData where
  "no_fields =
     \<lparr>amount = None, date = None, lender = None, borrower = None, state = None,
      collateral = None, debtor = None, secured_party = None, obligation = None,
      seller = None, buyer = None, goods_description = None, client = None,
      contractor = None, services = None\<rparr>"

definition empty_collateral :: FormData where
  "empty_collateral = no_fields\<lparr>collateral := Some []\<rparr>"

text \<open>An argument object with every field.\<close>

definition sample_fields :: FormData where
  "sample_fields =
     \<lparr>amount = Some ''1500'', date = Some ''2025-06-01'', lender = Some ''Ann Lee'',
      borrower = Some ''Bob Roe'', state = Some ''Ohio'', collateral = Some ''2019 Ford F-150'',
      debtor = Some ''Bob Roe'', secured_party = Some ''Ann Lee'', obligation = Some ''Note 7'',
      seller = Some ''S Co'', buyer = Some ''B Co'', goods_description = Some ''One saw'',
      client = Some ''C Inc'', contractor = Some ''K LLC'', services = Some ''Framing''\<rparr>"

text \<open>
  Entries of a run history: the result of an ordinary check with a given payload. The two
  full payloads are the verdicts of \<open>verifyOrdinary\<close> for a truck and for a laptop as
  \<open>JSON.stringify\<close> writes them; the third is the first cut short.
\<close>

definition ordinary_result :: "string \<Rightarrow> history_item" where
  "ordinary_result payload =
     \<lparr>item_type = ''function_call_result'', item_name = ''is_ordinary_rule_checker'',
      item_output = payload\<rparr>"

definition payload_pass :: string where
  \<open>payload_pass =
     ''{"rule_id":"rule_is_ordinary","passed":true,"details":"PASSED: 'truck' is a verifiable ''
     @ [CHR 0x5C] @ ''"ordinary'' @ [CHR 0x5C]
     @ ''" expense under IRC Sec 162(a) for NAICS code 238350.","evidence_source":"LIVE_QUERY: https://api.law.gov/rac/irc/section/162a/precedent?naics=238350","timestamp":"2025-01-01T00:00:00.000Z"}''\<close>

definition payload_fail :: string where
  \<open>payload_fail =
     ''{"rule_id":"rule_is_ordinary","passed":false,"details":"FAILED: 'laptop' is NOT a verifiable ''
     @ [CHR 0x5C] @ ''"ordinary'' @ [CHR 0x5C]
     @ ''" expense under IRC Sec 162(a) for NAICS code 238350.","evidence_source":"LIVE_QUERY: https://api.law.gov/rac/irc/section/162a/precedent?naics=238350","timestamp":"2025-01-01T00:00:00.000Z"}''\<close>

definition payload_truncated :: string where
  \<open>payload_truncated = ''{"rule_id":"rule_is_ordinary","passed":tr''\<close>

text \<open>
  The payload of the repository's test \<open>should return FALSE if the tool output is corrupted
  JSON\<close> of the gate: an object cut off inside a string.
\<close>

definition payload_corrupted :: string where
  \<open>payload_corrupted = ''{ "passed": true, "details": "corrupted... ''\<close>

section \<open>Facts about strings\<close>

lemma str_includes_iff: "str_includes s t \<longleftrightarrow> (\<exists>p q. s = p @ t @ q)"
proof (induction s)
  case Nil
  then show ?case by auto
next
  case (Cons c cs)
  show ?case
  proof
    assume "str_includes (c # cs) t"
    then consider "prefix t (c # cs)" | "str_includes cs t" by auto
    then show "\<exists>p q. c # cs = p @ t @ q"
    proof cases
      case 1
      then obtain q where "c # cs = t @ q" by (auto simp: prefix_def)
      then have "c # cs = [] @ t @ q" by simp
      then show ?thesis by blast
    next
      case 2
      with Cons obtain p q where "cs = p @ t @ q" by auto
      then have "c # cs = (c # p) @ t @ q" by simp
      then show ?thesis by blast
    qed
  next
    assume "\<exists>p q. c # cs = p @ t @ q"
    then obtain p q where pq: "c # cs = p @ t @ q" by auto
    show "str_includes (c # cs) t"
    proof (cases p)
      case Nil
      with pq have "prefix t (c # cs)" by (auto simp: prefix_def)
      then show ?thesis by simp
    next
      case (Cons a p')
      with pq have "cs = p' @ t @ q" by simp
      with Cons.IH have "str_includes cs t" by blast
      then show ?thesis by simp
    qed
  qed
qed

lemma join_includes: "m \<in> set xs \<Longrightarrow> \<exists>p q. join sep xs = p @ m @ q"
proof (induction sep xs rule: join.induct)
  case (1 sep)
  then show ?case by simp
next
  case (2 sep x)
  then have "join sep [x] = [] @ m @ []" by simp
  then show ?case by blast
next
  case (3 sep x y ys)
  show ?case
  proof (cases "m = x")
    case True
    then have "join sep (x # y # ys) = [] @ m @ (sep @ join sep (y # ys))" by simp
    then show ?thesis by blast
  next
    case False
    with 3 obtain p q where "join sep (y # ys) = p @ m @ q" by auto
    then have "join sep (x # y # ys) = (x @ sep @ p) @ m @ q" by simp
    then show ?thesis by blast
  qed
qed

section \<open>Properties of the ordinary-expense checker\<close>

lemma toLowerCase_truck: "toLowerCase ''truck'' = ''truck''" by code_simp
lemma toLowerCase_laptop: "toLowerCase ''laptop'' = ''laptop''" by code_simp

text \<open>
  Claim C5. The ordinary-expense checker fails closed: when the NAICS code is not
  \<open>238350\<close>, or the lowercased expense is not one of the five listed items, the verdict has
  \<open>passed = false\<close>. In particular \<open>('238350', 'truck')\<close> passes and
  \<open>('238350', 'laptop')\<close> does not.
\<close>

theorem verifyOrdinary_fail_closed:
  "(naics_code \<noteq> ''238350'' \<or> toLowerCase expense \<notin> set ordinary_items
      \<longrightarrow> passed (verifyOrdinary now naics_code expense) = False)
   \<and> passed (verifyOrdinary now ''238350'' ''truck'') = True
   \<and> passed (verifyOrdinary now ''238350'' ''laptop'') = False"
proof -
  have p: "passed (verifyOrdinary now n e) \<longleftrightarrow> n = ''238350'' \<and> toLowerCase e \<in> set ordinary_items"
    for n e
    by (simp add: verifyOrdinary_def query_def Let_def)
  have "toLowerCase ''truck'' \<in> set ordinary_items"
    by (simp add: toLowerCase_truck ordinary_items_def)
  moreover have "toLowerCase ''laptop'' \<notin> set ordinary_items"
    by (simp add: toLowerCase_laptop ordinary_items_def)
  ultimately show ?thesis
    by (simp add: p)
qed

text \<open>
  The theorem at two pairs outside the table: an item that is not listed, and a listed item
  under another NAICS code.
\<close>

theorem verifyOrdinary_fail_closed_witness:
  "toLowerCase ''Laptop'' \<notin> set ordinary_items
   \<and> passed (verifyOrdinary ''2025-01-01T00:00:00.000Z'' ''238350'' ''Laptop'') = False
   \<and> passed (verifyOrdinary ''2025-01-01T00:00:00.000Z'' ''111110'' ''truck'') = False"
proof -
  have h: "toLowerCase ''Laptop'' \<notin> set ordinary_items"
    by code_simp
  have n: "''111110'' \<noteq> ''238350''"
    by simp
  from h verifyOrdinary_fail_closed [of "''238350''" "''Laptop''" "''2025-01-01T00:00:00.000Z''"]
  have 1: "passed (verifyOrdinary ''2025-01-01T00:00:00.000Z'' ''238350'' ''Laptop'') = False"
    by blast
  from n verifyOrdinary_fail_closed [of "''111110''" "''truck''" "''2025-01-01T00:00:00.000Z''"]
  have 2: "passed (verifyOrdinary ''2025-01-01T00:00:00.000Z'' ''111110'' ''truck'') = False"
    by blast
  from h 1 2 show ?thesis by blast
qed

section \<open>Properties of the negotiability checker\<close>

lemma msg_distinct:
  "distinct [msg_unconditional, msg_fixed, msg_payable, msg_timing, msg_undertaking]"
  by (simp add: msg_unconditional_def msg_fixed_def msg_payable_def msg_timing_def
        msg_undertaking_def)

lemma failures_members:
  "(msg_unconditional \<in> set (failures terms) \<longleftrightarrow> promise_type terms \<noteq> unconditional)"
  "(msg_fixed \<in> set (failures terms) \<longleftrightarrow> amount_type terms \<noteq> fixed)"
  "(msg_payable \<in> set (failures terms) \<longleftrightarrow> payable_to terms = specific_person)"
  "(msg_timing \<in> set (failures terms) \<longleftrightarrow> timing terms = indefinite)"
  "(msg_undertaking \<in> set (failures terms) \<longleftrightarrow> other_undertakings terms)"
  using msg_distinct by (auto simp: failures_def)

lemma failures_all_five:
  "failures all_five_violated =
     [msg_unconditional, msg_fixed, msg_payable, msg_timing, msg_undertaking]"
  by (simp add: failures_def all_five_violated_def)

lemma details_all_five:
  "details (verifyNegotiability now all_five_violated) =
       ''FAILED: Non-negotiable. Violations: Must be an unconditional promise (UCC 3-104(a)), Must specify a fixed amount of money (UCC 3-104(a)), Must be payable to bearer or to order (UCC 3-104(a)(1)), Must be payable on demand or at a definite time (UCC 3-104(a)(2)), Must not state any other undertaking (UCC 3-104(a)(3))''"
  by (simp add: verifyNegotiability_def Let_def failures_all_five
        msg_unconditional_def msg_fixed_def msg_payable_def msg_timing_def msg_undertaking_def)

lemma details_names_failure:
  assumes "m \<in> set (failures terms)"
  shows "str_includes (details (verifyNegotiability now terms)) m"
proof -
  from assms have ne: "length (failures terms) \<noteq> 0" by auto
  from assms obtain p q where "join '', '' (failures terms) = p @ m @ q"
    using join_includes by blast
  then have "''FAILED: Non-negotiable. Violations: '' @ join '', '' (failures terms)
               = (''FAILED: Non-negotiable. Violations: '' @ p) @ m @ q"
    by simp
  then have "str_includes (''FAILED: Non-negotiable. Violations: '' @ join '', '' (failures terms)) m"
    unfolding str_includes_iff by blast
  with ne show ?thesis
    by (simp add: verifyNegotiability_def Let_def)
qed

lemma failures_empty_iff:
  "failures terms = [] \<longleftrightarrow>
     promise_type terms = unconditional \<and> amount_type terms = fixed
     \<and> payable_to terms \<noteq> specific_person \<and> timing terms \<noteq> indefinite
     \<and> \<not> other_undertakings terms"
  by (auto simp: failures_def)

lemma passed_iff_compliant:
  "passed (verifyNegotiability now terms) \<longleftrightarrow>
     promise_type terms = unconditional \<and> amount_type terms = fixed
     \<and> payable_to terms \<noteq> specific_person \<and> timing terms \<noteq> indefinite
     \<and> \<not> other_undertakings terms"
  by (simp add: verifyNegotiability_def Let_def failures_empty_iff)

lemma failures_in_order:
  "failures terms =
     filter (\<lambda>m. m \<in> set (failures terms))
       [msg_unconditional, msg_fixed, msg_payable, msg_timing, msg_undertaking]"
  unfolding filter.simps failures_members by (simp add: failures_def)

lemma details_cases:
  "details (verifyNegotiability now terms) =
     (if passed (verifyNegotiability now terms)
      then ''PASSED: Instrument meets all UCC 3-104 requirements for negotiability.''
      else ''FAILED: Non-negotiable. Violations: '' @ join '', '' (failures terms))"
  by (simp add: verifyNegotiability_def Let_def)

lemma bearer_note_passes:
  "passed (verifyNegotiability now compliant_bearer_note) = True"
  "details (verifyNegotiability now compliant_bearer_note) =
     ''PASSED: Instrument meets all UCC 3-104 requirements for negotiability.''"
  by (simp_all add: passed_iff_compliant details_cases compliant_bearer_note_def)

text \<open>
  Claim C7. The negotiability checker evaluates each of its five conditions on its own: the
  message of a condition is in the list of failures exactly when that condition is violated,
  and the list holds these messages, each once, in the order of the conditions, and nothing
  else. The verdict passes exactly when the list is empty, that is exactly when the promise
  is unconditional, the amount fixed, the instrument payable to bearer or to order, payable on
  demand or at a definite time, and without other undertakings. On success the details state
  full compliance; on failure they are the heading followed by the messages of the list joined
  by commas, so they name every violated condition. An instrument that violates all five
  conditions has all five messages in its details; a bearer note payable on demand passes.
\<close>

theorem verifyNegotiability_collects_all_violations:
  "(msg_unconditional \<in> set (failures terms) \<longleftrightarrow> promise_type terms \<noteq> unconditional)
   \<and> (msg_fixed \<in> set (failures terms) \<longleftrightarrow> amount_type terms \<noteq> fixed)
   \<and> (msg_payable \<in> set (failures terms) \<longleftrightarrow> payable_to terms = specific_person)
   \<and> (msg_timing \<in> set (failures terms) \<longleftrightarrow> timing terms = indefinite)
   \<and> (msg_undertaking \<in> set (failures terms) \<longleftrightarrow> other_undertakings terms)
   \<and> failures terms =
       filter (\<lambda>m. m \<in> set (failures terms))
         [msg_unconditional, msg_fixed, msg_payable, msg_timing, msg_undertaking]
   \<and> (passed (verifyNegotiability now terms) \<longleftrightarrow> length (failures terms) = 0)
   \<and> (passed (verifyNegotiability now terms) \<longleftrightarrow>
        promise_type terms = unconditional \<and> amount_type terms = fixed
        \<and> payable_to terms \<noteq> specific_person \<and> timing terms \<noteq> indefinite
        \<and> \<not> other_undertakings terms)
   \<and> (\<forall>m \<in> set (failures terms). str_includes (details (verifyNegotiability now terms)) m)
   \<and> details (verifyNegotiability now terms) =
       (if passed (verifyNegotiability now terms)
        then ''PASSED: Instrument meets all UCC 3-104 requirements for negotiability.''
        else ''FAILED: Non-negotiable. Violations: '' @ join '', '' (failures terms))
   \<and> details (verifyNegotiability now all_five_violated) =
       ''FAILED: Non-negotiable. Violations: Must be an unconditional promise (UCC 3-104(a)), Must specify a fixed amount of money (UCC 3-104(a)), Must be payable to bearer or to order (UCC 3-104(a)(1)), Must be payable on demand or at a definite time (UCC 3-104(a)(2)), Must not state any other undertaking (UCC 3-104(a)(3))''
   \<and> passed (verifyNegotiability now compliant_bearer_note) = True
   \<and> details (verifyNegotiability now compliant_bearer_note) =
       ''PASSED: Instrument meets all UCC 3-104 requirements for negotiability.''"
proof -
  have p: "passed (verifyNegotiability now terms) \<longleftrightarrow> length (failures terms) = 0"
    by (simp add: verifyNegotiability_def Let_def)
  have d: "\<forall>m \<in> set (failures terms). str_includes (details (verifyNegotiability now terms)) m"
    using details_names_failure by blast
  show ?thesis
    by (intro conjI failures_members failures_in_order p passed_iff_compliant d details_cases
          details_all_five bearer_note_passes)
qed

text \<open>
  The theorem at the instrument that violates all five conditions, which fails with all five
  messages, and at the bearer note, which passes.
\<close>

theorem verifyNegotiability_collects_all_violations_witness:
  "set (failures all_five_violated) =
     {msg_unconditional, msg_fixed, msg_payable, msg_timing, msg_undertaking}
   \<and> \<not> passed (verifyNegotiability ''2025-01-01T00:00:00.000Z'' all_five_violated)
   \<and> str_includes (details (verifyNegotiability ''2025-01-01T00:00:00.000Z'' all_five_violated))
         msg_unconditional
   \<and> str_includes (details (verifyNegotiability ''2025-01-01T00:00:00.000Z'' all_five_violated))
         msg_fixed
   \<and> str_includes (details (verifyNegotiability ''2025-01-01T00:00:00.000Z'' all_five_violated))
         msg_payable
   \<and> str_includes (details (verifyNegotiability ''2025-01-01T00:00:00.000Z'' all_five_violated))
         msg_timing
   \<and> str_includes (details (verifyNegotiability ''2025-01-01T00:00:00.000Z'' all_five_violated))
         msg_undertaking
   \<and> failures compliant_bearer_note = []
   \<and> passed (verifyNegotiability ''2025-01-01T00:00:00.000Z'' compliant_bearer_note)"
proof -
  have s: "set (failures all_five_violated) =
     {msg_unconditional, msg_fixed, msg_payable, msg_timing, msg_undertaking}"
    by (simp add: failures_all_five)
  note t = verifyNegotiability_collects_all_violations
             [of all_five_violated "''2025-01-01T00:00:00.000Z''"]
  note u = verifyNegotiability_collects_all_violations
             [of compliant_bearer_note "''2025-01-01T00:00:00.000Z''"]
  from t have p: "passed (verifyNegotiability ''2025-01-01T00:00:00.000Z'' all_five_violated)
                    \<longleftrightarrow> length (failures all_five_violated) = 0"
    by (elim conjE)
  from t have d: "\<forall>m \<in> set (failures all_five_violated).
       str_includes (details (verifyNegotiability ''2025-01-01T00:00:00.000Z'' all_five_violated)) m"
    by (elim conjE)
  from u have q: "passed (verifyNegotiability ''2025-01-01T00:00:00.000Z'' compliant_bearer_note)
        \<longleftrightarrow> promise_type compliant_bearer_note = unconditional
          \<and> amount_type compliant_bearer_note = fixed
          \<and> payable_to compliant_bearer_note \<noteq> specific_person
          \<and> timing compliant_bearer_note \<noteq> indefinite
          \<and> \<not> other_undertakings compliant_bearer_note"
    by (elim conjE)
  from u have l: "passed (verifyNegotiability ''2025-01-01T00:00:00.000Z'' compliant_bearer_note)
                    \<longleftrightarrow> length (failures compliant_bearer_note) = 0"
    by (elim conjE)
  from q have pass: "passed (verifyNegotiability ''2025-01-01T00:00:00.000Z'' compliant_bearer_note)"
    by (simp add: compliant_bearer_note_def)
  with l have e: "failures compliant_bearer_note = []"
    by simp
  from p have "\<not> passed (verifyNegotiability ''2025-01-01T00:00:00.000Z'' all_five_violated)"
    by (simp add: failures_all_five)
  moreover from d have
    "\<forall>m \<in> {msg_unconditional, msg_fixed, msg_payable, msg_timing, msg_undertaking}.
       str_includes (details (verifyNegotiability ''2025-01-01T00:00:00.000Z'' all_five_violated)) m"
    unfolding s .
  ultimately show ?thesis
    using s pass e by simp
qed

section \<open>Properties of form generation\<close>

subsection \<open>Security agreement\<close>

lemma str_includes_set: "str_includes s t \<Longrightarrow> set t \<subseteq> set s"
  by (auto simp: str_includes_iff)

lemma newline_in_template: "newline \<in> set (template ls)"
  by (simp add: template_def)

lemma template_starts_with_newline: "\<exists>r. template ls = newline # r"
  by (simp add: template_def)

lemma blocked_has_marker: "str_includes security_agreement_blocked ''GENERATION BLOCKED''"
  by (simp add: security_agreement_blocked_def)

lemma blocked_has_no_newline: "newline \<notin> set security_agreement_blocked"
  by (simp add: security_agreement_blocked_def newline_def)

lemma blocked_has_no_heading:
  "\<not> str_includes security_agreement_blocked ''# SECURITY AGREEMENT (UCC Article 9)''"
  by (simp add: security_agreement_blocked_def)

lemma blocked_lacks_template:
  "\<not> str_includes security_agreement_blocked (security_agreement_markdown now data)"
proof
  assume "str_includes security_agreement_blocked (security_agreement_markdown now data)"
  then have "set (security_agreement_markdown now data) \<subseteq> set security_agreement_blocked"
    by (rule str_includes_set)
  moreover have "newline \<in> set (security_agreement_markdown now data)"
    unfolding security_agreement_markdown_def by (rule newline_in_template)
  ultimately show False
    using blocked_has_no_newline by blast
qed

lemma hasCollateral_iff: "hasCollateral data \<longleftrightarrow> (\<exists>c. collateral data = Some c \<and> 3 < length c)"
  by (cases "collateral data") (auto simp: hasCollateral_def truthy_def)

lemma security_form_cases:
  "generateVerifiedForm now ''security_agreement_ucc'' data =
     (if hasCollateral data
      then \<lparr>markdown = security_agreement_markdown now data,
            validation =
              \<lparr>rule_id = ''UCC_9_203'', passed = True,
               details = ''PASSED: Contains granting clause and collateral description (UCC 9-203).'',
               evidence_source = or_else (citation (consultStatute ''UCC 9-203'')) ''UCC Article 9'',
               timestamp = now, generated_content = None\<rparr>\<rparr>
      else \<lparr>markdown = security_agreement_blocked,
            validation =
              \<lparr>rule_id = ''UCC_9_203'', passed = False,
               details = ''FAILED: Missing sufficient description of Collateral (UCC 9-108).'',
               evidence_source = ''UCC Article 9'',
               timestamp = now, generated_content = None\<rparr>\<rparr>)"
  by (simp add: generateVerifiedForm_def Let_def)

text \<open>
  Claim C3. For the form type \<open>security_agreement_ucc\<close> the verdict passes exactly when the
  collateral field is present and longer than 3 characters. When it fails, the returned text
  contains the marker \<open>GENERATION BLOCKED\<close> and contains neither the agreement template
  rendered for the data nor the heading of the agreement.
\<close>

theorem security_agreement_form_block:
  "(passed (validation (generateVerifiedForm now ''security_agreement_ucc'' data))
      \<longleftrightarrow> (\<exists>c. collateral data = Some c \<and> 3 < length c))
   \<and> (\<not> passed (validation (generateVerifiedForm now ''security_agreement_ucc'' data)) \<longrightarrow>
        str_includes (markdown (generateVerifiedForm now ''security_agreement_ucc'' data))
          ''GENERATION BLOCKED''
        \<and> \<not> str_includes (markdown (generateVerifiedForm now ''security_agreement_ucc'' data))
              (security_agreement_markdown now data)
        \<and> \<not> str_includes (markdown (generateVerifiedForm now ''security_agreement_ucc'' data))
              ''# SECURITY AGREEMENT (UCC Article 9)'')"
  using blocked_has_marker blocked_lacks_template blocked_has_no_heading
  by (simp add: security_form_cases hasCollateral_iff [symmetric])

text \<open>The theorem at an argument object whose collateral is the empty string.\<close>

theorem security_agreement_form_block_witness:
  "collateral empty_collateral = Some []
   \<and> \<not> passed (validation (generateVerifiedForm ''2025-01-01T00:00:00.000Z''
                               ''security_agreement_ucc'' empty_collateral))
   \<and> str_includes (markdown (generateVerifiedForm ''2025-01-01T00:00:00.000Z''
                                 ''security_agreement_ucc'' empty_collateral))
        ''GENERATION BLOCKED''
   \<and> \<not> str_includes (markdown (generateVerifiedForm ''2025-01-01T00:00:00.000Z''
                                   ''security_agreement_ucc'' empty_collateral))
          (security_agreement_markdown ''2025-01-01T00:00:00.000Z'' empty_collateral)"
proof -
  have c: "collateral empty_collateral = Some []"
    by (simp add: empty_collateral_def no_fields_def)
  note t = security_agreement_form_block
             [of "''2025-01-01T00:00:00.000Z''" empty_collateral]
  from t c have f: "\<not> passed (validation (generateVerifiedForm ''2025-01-01T00:00:00.000Z''
                               ''security_agreement_ucc'' empty_collateral))"
    by simp
  with t c show ?thesis
    by blast
qed

subsection \<open>Promissory note\<close>

lemma note_terms_compliant: "failures (note_terms data) = []"
  by (simp add: failures_def note_terms_def)

text \<open>
  Claim C9. For the form type \<open>promissory_note_ucc\<close> and every argument object, the
  negotiability check runs on terms with an unconditional promise, a fixed amount, payable to
  order, on demand or at a definite time, and without other undertakings. Its verdict is the
  form's verdict and has \<open>passed = true\<close>, and the returned text is the note template:
  the branch that blocks generation is never taken.
\<close>

theorem promissory_note_never_blocked:
  "promise_type (note_terms data) = unconditional
   \<and> amount_type (note_terms data) = fixed
   \<and> payable_to (note_terms data) = order
   \<and> timing (note_terms data) \<in> {demand, definite}
   \<and> other_undertakings (note_terms data) = False
   \<and> validation (generateVerifiedForm now ''promissory_note_ucc'' data)
       = verifyNegotiability now (note_terms data)
   \<and> passed (validation (generateVerifiedForm now ''promissory_note_ucc'' data)) = True
   \<and> markdown (generateVerifiedForm now ''promissory_note_ucc'' data)
       = promissory_note_markdown data"
proof -
  have p: "passed (verifyNegotiability now (note_terms data))"
    by (simp add: verifyNegotiability_def Let_def note_terms_compliant)
  have g: "generateVerifiedForm now ''promissory_note_ucc'' data =
             \<lparr>markdown = promissory_note_markdown data,
              validation = verifyNegotiability now (note_terms data)\<rparr>"
    using p by (simp add: generateVerifiedForm_def Let_def note_terms_def)
  show ?thesis
    using p by (simp add: g) (simp add: note_terms_def)
qed

subsection \<open>Bill of sale and contractor agreement\<close>

text \<open>
  The two branches assign their template and a passing verdict without a test. The templates
  written out line by line, and rendered for an argument object without fields and for one
  with every field, at the time \<open>2025-03-04T05:06:07.890Z\<close>.
\<close>

lemma bill_of_sale_form:
  \<open>generateVerifiedForm now ''bill_of_sale_ucc'' data =
     \<lparr>markdown = bill_of_sale_markdown now data,
      validation =
       \<lparr>rule_id = ''UCC_2_201'', passed = True,
          details = ''PASSED: Written memorandum of sale (UCC 2-201).'',
          evidence_source = ''UCC Article 2'', timestamp = now, generated_content = None\<rparr>\<rparr>\<close>
  by (simp add: generateVerifiedForm_def)

lemma contractor_form:
  \<open>generateVerifiedForm now ''contractor_agreement'' data =
     \<lparr>markdown = contractor_agreement_markdown data,
      validation =
       \<lparr>rule_id = ''COMMON_LAW_AGENCY'', passed = True,
          details = ''PASSED: Explicitly defines Independent Contractor relationship.'',
          evidence_source = ''IRS Common Law Rules'', timestamp = now, generated_content = None\<rparr>\<rparr>\<close>
  by (simp add: generateVerifiedForm_def)

lemma bill_of_sale_text:
  \<open>bill_of_sale_markdown now data =
       [newline]
       @ ''# BILL OF SALE (UCC Article 2)'' @ [newline]
       @ [newline]
       @ ''**Seller:** '' @ or_else (seller data) ''___'' @ [newline]
       @ ''**Buyer:** '' @ or_else (buyer data) ''___'' @ [newline]
       @ ''**Date:** '' @ or_else (date data) (today now) @ [newline]
       @ ''**Consideration:** $'' @ or_else (amount data) ''___'' @ [newline]
       @ [newline]
       @ ''FOR VALUE RECEIVED, Seller hereby sells, transfers, and conveys to Buyer the following goods (the "Goods"):'' @ [newline]
       @ [newline]
       @ ''**DESCRIPTION OF GOODS:**'' @ [newline]
       @ or_else (goods_description data) ''[Insert Description and Serial Numbers]'' @ [newline]
       @ [newline]
       @ ''**WARRANTIES:**'' @ [newline]
       @ ''Seller warrants that they have good and marketable title to the Goods, free of all liens and encumbrances. The Goods are sold "AS-IS" unless otherwise expressly stated.'' @ [newline]
       @ [newline]
       @ ''[SIGNATURE_FIELD:Seller]'' @ [newline]
       @ ''**'' @ or_else (seller data) ''Seller'' @ ''**'' @ [newline]
       @ [newline]
       @ ''[SIGNATURE_FIELD:Buyer]'' @ [newline]
       @ ''**'' @ or_else (buyer data) ''Buyer'' @ ''**'' @ [newline]\<close>
  unfolding bill_of_sale_markdown_def template_def
  by (simp only: list.map concat.simps append_assoc append_Nil append_Nil2)

lemma contractor_text:
  \<open>contractor_agreement_markdown data =
       [newline]
       @ ''# INDEPENDENT CONTRACTOR AGREEMENT'' @ [newline]
       @ [newline]
       @ ''This Agreement is made between **'' @ or_else (client data) ''Client'' @ ''** and **'' @ or_else (contractor data) ''Contractor'' @ ''**.'' @ [newline]
       @ [newline]
       @ ''**1. SERVICES.**'' @ [newline]
       @ ''Contractor agrees to perform the following services:'' @ [newline]
       @ or_else (services data) ''[Describe Services]'' @ [newline]
       @ [newline]
       @ ''**2. INDEPENDENT CONTRACTOR STATUS.**'' @ [newline]
       @ ''Contractor is an independent contractor, not an employee. Contractor is responsible for all taxes (including Self-Employment Tax). Client shall not withhold taxes or provide benefits.'' @ [newline]
       @ [newline]
       @ ''**3. WORK FOR HIRE.**'' @ [newline]
       @ ''All deliverables created under this Agreement shall be considered "Work Made for Hire" and shall be the sole property of the Client.'' @ [newline]
       @ [newline]
       @ ''**4. CONFIDENTIALITY.**'' @ [newline]
       @ ''Contractor acknowledges access to confidential information and agrees not to disclose such information to third parties.'' @ [newline]
       @ [newline]
       @ ''[SIGNATURE_FIELD:Contractor]'' @ [newline]
       @ ''**'' @ or_else (contractor data) ''Contractor'' @ ''**'' @ [newline]
       @ [newline]
       @ ''[SIGNATURE_FIELD:Client]'' @ [newline]
       @ ''**'' @ or_else (client data) ''Client'' @ ''**'' @ [newline]\<close>
  unfolding contractor_agreement_markdown_def template_def
  by (simp only: list.map concat.simps append_assoc append_Nil append_Nil2)

lemma bill_of_sale_not_blocked:
  \<open>\<not> prefix ''> **GENERATION BLOCKED**'' (bill_of_sale_markdown now data)\<close>
  by (simp add: bill_of_sale_markdown_def template_def newline_def)

lemma contractor_not_blocked:
  \<open>\<not> prefix ''> **GENERATION BLOCKED**'' (contractor_agreement_markdown data)\<close>
  by (simp add: contractor_agreement_markdown_def template_def newline_def)

lemma bill_of_sale_no_fields:
  \<open>markdown (generateVerifiedForm ''2025-03-04T05:06:07.890Z'' ''bill_of_sale_ucc'' no_fields) =
       [newline]
       @ ''# BILL OF SALE (UCC Article 2)'' @ [newline]
       @ [newline]
       @ ''**Seller:** ___'' @ [newline]
       @ ''**Buyer:** ___'' @ [newline]
       @ ''**Date:** 2025-03-04'' @ [newline]
       @ ''**Consideration:** $___'' @ [newline]
       @ [newline]
       @ ''FOR VALUE RECEIVED, Seller hereby sells, transfers, and conveys to Buyer the following goods (the "Goods"):'' @ [newline]
       @ [newline]
       @ ''**DESCRIPTION OF GOODS:**'' @ [newline]
       @ ''[Insert Description and Serial Numbers]'' @ [newline]
       @ [newline]
       @ ''**WARRANTIES:**'' @ [newline]
       @ ''Seller warrants that they have good and marketable title to the Goods, free of all liens and encumbrances. The Goods are sold "AS-IS" unless otherwise expressly stated.'' @ [newline]
       @ [newline]
       @ ''[SIGNATURE_FIELD:Seller]'' @ [newline]
       @ ''**Seller**'' @ [newline]
       @ [newline]
       @ ''[SIGNATURE_FIELD:Buyer]'' @ [newline]
       @ ''**Buyer**'' @ [newline]\<close>
  by code_simp

lemma bill_of_sale_sample:
  \<open>markdown (generateVerifiedForm ''2025-03-04T05:06:07.890Z'' ''bill_of_sale_ucc'' sample_fields) =
       [newline]
       @ ''# BILL OF SALE (UCC Article 2)'' @ [newline]
       @ [newline]
       @ ''**Seller:** S Co'' @ [newline]
       @ ''**Buyer:** B Co'' @ [newline]
       @ ''**Date:** 2025-06-01'' @ [newline]
       @ ''**Consideration:** $1500'' @ [newline]
       @ [newline]
       @ ''FOR VALUE RECEIVED, Seller hereby sells, transfers, and conveys to Buyer the following goods (the "Goods"):'' @ [newline]
       @ [newline]
       @ ''**DESCRIPTION OF GOODS:**'' @ [newline]
       @ ''One saw'' @ [newline]
       @ [newline]
       @ ''**WARRANTIES:**'' @ [newline]
       @ ''Seller warrants that they have good and marketable title to the Goods, free of all liens and encumbrances. The Goods are sold "AS-IS" unless otherwise expressly stated.'' @ [newline]
       @ [newline]
       @ ''[SIGNATURE_FIELD:Seller]'' @ [newline]
       @ ''**S Co**'' @ [newline]
       @ [newline]
       @ ''[SIGNATURE_FIELD:Buyer]'' @ [newline]
       @ ''**B Co**'' @ [newline]\<close>
  by code_simp

lemma contractor_no_fields:
  \<open>markdown (generateVerifiedForm ''2025-03-04T05:06:07.890Z'' ''contractor_agreement'' no_fields) =
       [newline]
       @ ''# INDEPENDENT CONTRACTOR AGREEMENT'' @ [newline]
       @ [newline]
       @ ''This Agreement is made between **Client** and **Contractor**.'' @ [newline]
       @ [newline]
       @ ''**1. SERVICES.**'' @ [newline]
       @ ''Contractor agrees to perform the following services:'' @ [newline]
       @ ''[Describe Services]'' @ [newline]
       @ [newline]
       @ ''**2. INDEPENDENT CONTRACTOR STATUS.**'' @ [newline]
       @ ''Contractor is an independent contractor, not an employee. Contractor is responsible for all taxes (including Self-Employment Tax). Client shall not withhold taxes or provide benefits.'' @ [newline]
       @ [newline]
       @ ''**3. WORK FOR HIRE.**'' @ [newline]
       @ ''All deliverables created under this Agreement shall be considered "Work Made for Hire" and shall be the sole property of the Client.'' @ [newline]
       @ [newline]
       @ ''**4. CONFIDENTIALITY.**'' @ [newline]
       @ ''Contractor acknowledges access to confidential information and agrees not to disclose such information to third parties.'' @ [newline]
       @ [newline]
       @ ''[SIGNATURE_FIELD:Contractor]'' @ [newline]
       @ ''**Contractor**'' @ [newline]
       @ [newline]
       @ ''[SIGNATURE_FIELD:Client]'' @ [newline]
       @ ''**Client**'' @ [newline]\<close>
  by code_simp

lemma contractor_sample:
  \<open>markdown (generateVerifiedForm ''2025-03-04T05:06:07.890Z'' ''contractor_agreement'' sample_fields) =
       [newline]
       @ ''# INDEPENDENT CONTRACTOR AGREEMENT'' @ [newline]
       @ [newline]
       @ ''This Agreement is made between **C Inc** and **K LLC**.'' @ [newline]
       @ [newline]
       @ ''**1. SERVICES.**'' @ [newline]
       @ ''Contractor agrees to perform the following services:'' @ [newline]
       @ ''Framing'' @ [newline]
       @ [newline]
       @ ''**2. INDEPENDENT CONTRACTOR STATUS.**'' @ [newline]
       @ ''Contractor is an independent contractor, not an employee. Contractor is responsible for all taxes (including Self-Employment Tax). Client shall not withhold taxes or provide benefits.'' @ [newline]
       @ [newline]
       @ ''**3. WORK FOR HIRE.**'' @ [newline]
       @ ''All deliverables created under this Agreement shall be considered "Work Made for Hire" and shall be the sole property of the Client.'' @ [newline]
       @ [newline]
       @ ''**4. CONFIDENTIALITY.**'' @ [newline]
       @ ''Contractor acknowledges access to confidential information and agrees not to disclose such information to third parties.'' @ [newline]
       @ [newline]
       @ ''[SIGNATURE_FIELD:Contractor]'' @ [newline]
       @ ''**K LLC**'' @ [newline]
       @ [newline]
       @ ''[SIGNATURE_FIELD:Client]'' @ [newline]
       @ ''**C Inc**'' @ [newline]\<close>
  by code_simp

text \<open>
  Claim C10. For the form types \<open>bill_of_sale_ucc\<close> and \<open>contractor_agreement\<close> and
  every argument object, whichever fields it has, the verdict is the passing one of the form
  (\<open>UCC_2_201\<close>, \<open>COMMON_LAW_AGENCY\<close>) and the returned text is the full template
  rendered for the data: the heading, every clause, each field or its default where the field
  is missing or empty (the date defaults to the day of the call), and the signature lines. The
  text never begins with the notice of a blocked generation. An argument object without
  fields yields the template with all defaults, one with every field the template with the
  fields filled in.
\<close>

theorem bill_of_sale_and_contractor_never_blocked:
  \<open>passed (validation (generateVerifiedForm now ''bill_of_sale_ucc'' data)) = True
   \<and> validation (generateVerifiedForm now ''bill_of_sale_ucc'' data) =
       \<lparr>rule_id = ''UCC_2_201'', passed = True,
          details = ''PASSED: Written memorandum of sale (UCC 2-201).'',
          evidence_source = ''UCC Article 2'', timestamp = now, generated_content = None\<rparr>
   \<and> markdown (generateVerifiedForm now ''bill_of_sale_ucc'' data)
       = bill_of_sale_markdown now data
   \<and> markdown (generateVerifiedForm now ''bill_of_sale_ucc'' data) =
       [newline]
       @ ''# BILL OF SALE (UCC Article 2)'' @ [newline]
       @ [newline]
       @ ''**Seller:** '' @ or_else (seller data) ''___'' @ [newline]
       @ ''**Buyer:** '' @ or_else (buyer data) ''___'' @ [newline]
       @ ''**Date:** '' @ or_else (date data) (today now) @ [newline]
       @ ''**Consideration:** $'' @ or_else (amount data) ''___'' @ [newline]
       @ [newline]
       @ ''FOR VALUE RECEIVED, Seller hereby sells, transfers, and conveys to Buyer the following goods (the "Goods"):'' @ [newline]
       @ [newline]
       @ ''**DESCRIPTION OF GOODS:**'' @ [newline]
       @ or_else (goods_description data) ''[Insert Description and Serial Numbers]'' @ [newline]
       @ [newline]
       @ ''**WARRANTIES:**'' @ [newline]
       @ ''Seller warrants that they have good and marketable title to the Goods, free of all liens and encumbrances. The Goods are sold "AS-IS" unless otherwise expressly stated.'' @ [newline]
       @ [newline]
       @ ''[SIGNATURE_FIELD:Seller]'' @ [newline]
       @ ''**'' @ or_else (seller data) ''Seller'' @ ''**'' @ [newline]
       @ [newline]
       @ ''[SIGNATURE_FIELD:Buyer]'' @ [newline]
       @ ''**'' @ or_else (buyer data) ''Buyer'' @ ''**'' @ [newline]
   \<and> \<not> prefix ''> **GENERATION BLOCKED**'' (markdown (generateVerifiedForm now ''bill_of_sale_ucc'' data))
   \<and> markdown (generateVerifiedForm ''2025-03-04T05:06:07.890Z'' ''bill_of_sale_ucc'' no_fields) =
       [newline]
       @ ''# BILL OF SALE (UCC Article 2)'' @ [newline]
       @ [newline]
       @ ''**Seller:** ___'' @ [newline]
       @ ''**Buyer:** ___'' @ [newline]
       @ ''**Date:** 2025-03-04'' @ [newline]
       @ ''**Consideration:** $___'' @ [newline]
       @ [newline]
       @ ''FOR VALUE RECEIVED, Seller hereby sells, transfers, and conveys to Buyer the following goods (the "Goods"):'' @ [newline]
       @ [newline]
       @ ''**DESCRIPTION OF GOODS:**'' @ [newline]
       @ ''[Insert Description and Serial Numbers]'' @ [newline]
       @ [newline]
       @ ''**WARRANTIES:**'' @ [newline]
       @ ''Seller warrants that they have good and marketable title to the Goods, free of all liens and encumbrances. The Goods are sold "AS-IS" unless otherwise expressly stated.'' @ [newline]
       @ [newline]
       @ ''[SIGNATURE_FIELD:Seller]'' @ [newline]
       @ ''**Seller**'' @ [newline]
       @ [newline]
       @ ''[SIGNATURE_FIELD:Buyer]'' @ [newline]
       @ ''**Buyer**'' @ [newline]
   \<and> markdown (generateVerifiedForm ''2025-03-04T05:06:07.890Z'' ''bill_of_sale_ucc'' sample_fields) =
       [newline]
       @ ''# BILL OF SALE (UCC Article 2)'' @ [newline]
       @ [newline]
       @ ''**Seller:** S Co'' @ [newline]
       @ ''**Buyer:** B Co'' @ [newline]
       @ ''**Date:** 2025-06-01'' @ [newline]
       @ ''**Consideration:** $1500'' @ [newline]
       @ [newline]
       @ ''FOR VALUE RECEIVED, Seller hereby sells, transfers, and conveys to Buyer the following goods (the "Goods"):'' @ [newline]
       @ [newline]
       @ ''**DESCRIPTION OF GOODS:**'' @ [newline]
       @ ''One saw'' @ [newline]
       @ [newline]
       @ ''**WARRANTIES:**'' @ [newline]
       @ ''Seller warrants that they have good and marketable title to the Goods, free of all liens and encumbrances. The Goods are sold "AS-IS" unless otherwise expressly stated.'' @ [newline]
       @ [newline]
       @ ''[SIGNATURE_FIELD:Seller]'' @ [newline]
       @ ''**S Co**'' @ [newline]
       @ [newline]
       @ ''[SIGNATURE_FIELD:Buyer]'' @ [newline]
       @ ''**B Co**'' @ [newline]
   \<and> passed (validation (generateVerifiedForm now ''contractor_agreement'' data)) = True
   \<and> validation (generateVerifiedForm now ''contractor_agreement'' data) =
       \<lparr>rule_id = ''COMMON_LAW_AGENCY'', passed = True,
          details = ''PASSED: Explicitly defines Independent Contractor relationship.'',
          evidence_source = ''IRS Common Law Rules'', timestamp = now, generated_content = None\<rparr>
   \<and> markdown (generateVerifiedForm now ''contractor_agreement'' data)
       = contractor_agreement_markdown data
   \<and> markdown (generateVerifiedForm now ''contractor_agreement'' data) =
       [newline]
       @ ''# INDEPENDENT CONTRACTOR AGREEMENT'' @ [newline]
       @ [newline]
       @ ''This Agreement is made between **'' @ or_else (client data) ''Client'' @ ''** and **'' @ or_else (contractor data) ''Contractor'' @ ''**.'' @ [newline]
       @ [newline]
       @ ''**1. SERVICES.**'' @ [newline]
       @ ''Contractor agrees to perform the following services:'' @ [newline]
       @ or_else (services data) ''[Describe Services]'' @ [newline]
       @ [newline]
       @ ''**2. INDEPENDENT CONTRACTOR STATUS.**'' @ [newline]
       @ ''Contractor is an independent contractor, not an employee. Contractor is responsible for all taxes (including Self-Employment Tax). Client shall not withhold taxes or provide benefits.'' @ [newline]
       @ [newline]
       @ ''**3. WORK FOR HIRE.**'' @ [newline]
       @ ''All deliverables created under this Agreement shall be considered "Work Made for Hire" and shall be the sole property of the Client.'' @ [newline]
       @ [newline]
       @ ''**4. CONFIDENTIALITY.**'' @ [newline]
       @ ''Contractor acknowledges access to confidential information and agrees not to disclose such information to third parties.'' @ [newline]
       @ [newline]
       @ ''[SIGNATURE_FIELD:Contractor]'' @ [newline]
       @ ''**'' @ or_else (contractor data) ''Contractor'' @ ''**'' @ [newline]
       @ [newline]
       @ ''[SIGNATURE_FIELD:Client]'' @ [newline]
       @ ''**'' @ or_else (client data) ''Client'' @ ''**'' @ [newline]
   \<and> \<not> prefix ''> **GENERATION BLOCKED**'' (markdown (generateVerifiedForm now ''contractor_agreement'' data))
   \<and> markdown (generateVerifiedForm ''2025-03-04T05:06:07.890Z'' ''contractor_agreement'' no_fields) =
       [newline]
       @ ''# INDEPENDENT CONTRACTOR AGREEMENT'' @ [newline]
       @ [newline]
       @ ''This Agreement is made between **Client** and **Contractor**.'' @ [newline]
       @ [newline]
       @ ''**1. SERVICES.**'' @ [newline]
       @ ''Contractor agrees to perform the following services:'' @ [newline]
       @ ''[Describe Services]'' @ [newline]
       @ [newline]
       @ ''**2. INDEPENDENT CONTRACTOR STATUS.**'' @ [newline]
       @ ''Contractor is an independent contractor, not an employee. Contractor is responsible for all taxes (including Self-Employment Tax). Client shall not withhold taxes or provide benefits.'' @ [newline]
       @ [newline]
       @ ''**3. WORK FOR HIRE.**'' @ [newline]
       @ ''All deliverables created under this Agreement shall be considered "Work Made for Hire" and shall be the sole property of the Client.'' @ [newline]
       @ [newline]
       @ ''**4. CONFIDENTIALITY.**'' @ [newline]
       @ ''Contractor acknowledges access to confidential information and agrees not to disclose such information to third parties.'' @ [newline]
       @ [newline]
       @ ''[SIGNATURE_FIELD:Contractor]'' @ [newline]
       @ ''**Contractor**'' @ [newline]
       @ [newline]
       @ ''[SIGNATURE_FIELD:Client]'' @ [newline]
       @ ''**Client**'' @ [newline]
   \<and> markdown (generateVerifiedForm ''2025-03-04T05:06:07.890Z'' ''contractor_agreement'' sample_fields) =
       [newline]
       @ ''# INDEPENDENT CONTRACTOR AGREEMENT'' @ [newline]
       @ [newline]
       @ ''This Agreement is made between **C Inc** and **K LLC**.'' @ [newline]
       @ [newline]
       @ ''**1. SERVICES.**'' @ [newline]
       @ ''Contractor agrees to perform the following services:'' @ [newline]
       @ ''Framing'' @ [newline]
       @ [newline]
       @ ''**2. INDEPENDENT CONTRACTOR STATUS.**'' @ [newline]
       @ ''Contractor is an independent contractor, not an employee. Contractor is responsible for all taxes (including Self-Employment Tax). Client shall not withhold taxes or provide benefits.'' @ [newline]
       @ [newline]
       @ ''**3. WORK FOR HIRE.**'' @ [newline]
       @ ''All deliverables created under this Agreement shall be considered "Work Made for Hire" and shall be the sole property of the Client.'' @ [newline]
       @ [newline]
       @ ''**4. CONFIDENTIALITY.**'' @ [newline]
       @ ''Contractor acknowledges access to confidential information and agrees not to disclose such information to third parties.'' @ [newline]
       @ [newline]
       @ ''[SIGNATURE_FIELD:Contractor]'' @ [newline]
       @ ''**K LLC**'' @ [newline]
       @ [newline]
       @ ''[SIGNATURE_FIELD:Client]'' @ [newline]
       @ ''**C Inc**'' @ [newline]\<close>
proof -
  note b = bill_of_sale_form [of now data]
  note c = contractor_form [of now data]
  show ?thesis
  proof (intro conjI)
    show "passed (validation (generateVerifiedForm now ''bill_of_sale_ucc'' data)) = True"
      by (simp add: b)
    show "passed (validation (generateVerifiedForm now ''contractor_agreement'' data)) = True"
      by (simp add: c)
    show "markdown (generateVerifiedForm now ''bill_of_sale_ucc'' data)
            = bill_of_sale_markdown now data"
      by (simp add: b)
    show "markdown (generateVerifiedForm now ''contractor_agreement'' data)
            = contractor_agreement_markdown data"
      by (simp add: c)
    show "\<not> prefix ''> **GENERATION BLOCKED**''
            (markdown (generateVerifiedForm now ''bill_of_sale_ucc'' data))"
      using bill_of_sale_not_blocked by (simp add: b)
    show "\<not> prefix ''> **GENERATION BLOCKED**''
            (markdown (generateVerifiedForm now ''contractor_agreement'' data))"
      using contractor_not_blocked by (simp add: c)
  qed (simp_all only: b c FormResult.simps bill_of_sale_text contractor_text
         bill_of_sale_no_fields bill_of_sale_sample contractor_no_fields contractor_sample)
qed

section \<open>Facts about rounding\<close>

lemma round_half_even_le: "t \<le> of_int N \<Longrightarrow> round_half_even t \<le> N"
proof -
  assume a: "t \<le> of_int N"
  then have f: "\<lfloor>t\<rfloor> \<le> N" by (simp add: floor_le_iff) 
  show ?thesis
  proof (cases "\<lfloor>t\<rfloor> = N")
    case True
    then have "of_int N \<le> t" by (metis of_int_floor_le)
    with a have "t = of_int N" by simp
    then show ?thesis by (simp add: round_half_even_def)
  next
    case False
    with f have "\<lfloor>t\<rfloor> + 1 \<le> N" by simp
    then show ?thesis using f by (simp add: round_half_even_def Let_def)
  qed
qed

lemma round_half_even_ge: "of_int N \<le> t \<Longrightarrow> N \<le> round_half_even t"
proof -
  assume "of_int N \<le> t"
  then have "N \<le> \<lfloor>t\<rfloor>" by (simp add: le_floor_iff)
  then show ?thesis by (simp add: round_half_even_def Let_def)
qed

lemma round_half_even_gt: "of_int N + 1 / 2 < t \<Longrightarrow> N + 1 \<le> round_half_even t"
proof -
  assume a: "of_int N + 1 / 2 < t"
  then have f: "N \<le> \<lfloor>t\<rfloor>" by (simp add: le_floor_iff)
  show ?thesis
  proof (cases "\<lfloor>t\<rfloor> = N")
    case True
    with a have "1 / 2 < t - of_int \<lfloor>t\<rfloor>" by simp
    then show ?thesis using True by (simp add: round_half_even_def Let_def)
  next
    case False
    with f have "N + 1 \<le> \<lfloor>t\<rfloor>" by simp
    then show ?thesis by (simp add: round_half_even_def Let_def)
  qed
qed

lemma floor_log2_bounds:
  assumes "0 < y"
  shows "2 powi (floor_log2 y) \<le> y" and "y < 2 powi (floor_log2 y + 1)"
proof -
  obtain p q where pq: "quotient_of y = (p, q)" by (cases "quotient_of y")
  then have q: "0 < q" by (rule quotient_of_denom_pos)
  from pq have y: "y = of_int p / of_int q" by (rule quotient_of_div)
  with assms q have p: "0 < p" by (simp add: zero_less_divide_iff)
  define bp where "bp = bitlen p"
  define bq where "bq = bitlen q"
  from bitlen_bounds [OF p] have p1: "2 ^ nat (bp - 1) \<le> p" and p2: "p < 2 ^ nat bp"
    by (simp_all add: bp_def)
  from bitlen_bounds [OF q] have q1: "2 ^ nat (bq - 1) \<le> q" and q2: "q < 2 ^ nat bq"
    by (simp_all add: bq_def)
  have bp1: "1 \<le> bp" using p p2 by (cases "bp \<le> 0") auto
  have bq1: "1 \<le> bq" using q q2 by (cases "bq \<le> 0") auto
  have P1: "(2::rat) powi (bp - 1) \<le> of_int p"
  proof -
    have "(of_int (2 ^ nat (bp - 1)) :: rat) \<le> of_int p" using p1 by (simp only: of_int_le_iff)
    moreover have "(2::rat) powi (bp - 1) = 2 ^ nat (bp - 1)" using bp1 by (simp add: power_int_def)
    ultimately show ?thesis by simp
  qed
  have P2: "of_int p < (2::rat) powi bp"
  proof -
    have "(of_int p :: rat) < of_int (2 ^ nat bp)" using p2 by (simp only: of_int_less_iff)
    moreover have "(2::rat) powi bp = 2 ^ nat bp" using bp1 by (simp add: power_int_def)
    ultimately show ?thesis by simp
  qed
  have Q1: "(2::rat) powi (bq - 1) \<le> of_int q"
  proof -
    have "(of_int (2 ^ nat (bq - 1)) :: rat) \<le> of_int q" using q1 by (simp only: of_int_le_iff)
    moreover have "(2::rat) powi (bq - 1) = 2 ^ nat (bq - 1)" using bq1 by (simp add: power_int_def)
    ultimately show ?thesis by simp
  qed
  have Q2: "of_int q < (2::rat) powi bq"
  proof -
    have "(of_int q :: rat) < of_int (2 ^ nat bq)" using q2 by (simp only: of_int_less_iff)
    moreover have "(2::rat) powi bq = 2 ^ nat bq" using bq1 by (simp add: power_int_def)
    ultimately show ?thesis by simp
  qed
  define d where "d = bp - bq"
  have qpos: "(0::rat) < of_int q" using q by simp
  have lower: "(2::rat) powi (d - 1) \<le> y"
  proof -
    have "(2::rat) powi (d - 1) = 2 powi (bp - 1) / 2 powi bq"
      by (simp add: d_def power_int_diff [symmetric] algebra_simps)
    also have "\<dots> \<le> of_int p / 2 powi bq"
      using P1 by (simp add: divide_right_mono)
    also have "\<dots> \<le> of_int p / of_int q"
      using Q2 qpos p by (intro divide_left_mono) (auto simp: less_imp_le)
    finally show ?thesis by (simp add: y)
  qed
  have upper: "y < (2::rat) powi (d + 1)"
  proof -
    have "y = of_int p / of_int q" by (rule y)
    also have "\<dots> < 2 powi bp / of_int q"
      using P2 qpos by (simp add: divide_strict_right_mono)
    also have "\<dots> \<le> 2 powi bp / 2 powi (bq - 1)"
      using Q1 qpos by (intro divide_left_mono mult_pos_pos) simp_all
    also have "\<dots> = 2 powi (d + 1)"
      by (simp add: d_def power_int_diff [symmetric] algebra_simps)
    finally show ?thesis .
  qed
  have fl: "floor_log2 y = (if 2 powi d \<le> y then d else d - 1)"
    by (simp add: floor_log2_def pq d_def bp_def bq_def Let_def)
  show "2 powi (floor_log2 y) \<le> y"
    using lower by (simp add: fl)
  show "y < 2 powi (floor_log2 y + 1)"
    using upper by (auto simp: fl not_le)
qed

lemma two_powi_le_iff: "(2::rat) powi a \<le> 2 powi b \<longleftrightarrow> a \<le> b"
proof
  assume le: "(2::rat) powi a \<le> 2 powi b"
  show "a \<le> b"
  proof (rule ccontr)
    assume "\<not> a \<le> b"
    then have "b < a" by simp
    then have "(2::rat) powi b < 2 powi a" by (rule power_int_strict_increasing) simp
    with le show False by simp
  qed
next
  assume "a \<le> b"
  then show "(2::rat) powi a \<le> 2 powi b" by (rule power_int_increasing) simp
qed

lemma two_powi_less_iff: "(2::rat) powi a < 2 powi b \<longleftrightarrow> a < b"
  using two_powi_le_iff [of b a] by (auto simp: not_le [symmetric])

lemma round64_le_half:
  assumes "x \<le> 1 / 2"
  shows "js_le (round64 x) (Finite (1 / 2))"
proof (cases "x \<le> 0")
  case True
  show ?thesis
  proof (cases "x = 0")
    case True
    then show ?thesis by (simp add: round64_def js_le_def)
  next
    case False
    with True have neg: "x < 0" by simp
    define e where "e = max (floor_log2 \<bar>x\<bar> - 52) (- 1074)"
    define m where "m = round_half_even (\<bar>x\<bar> / 2 powi e)"
    define v where "v = of_int m * (2::rat) powi e"
    have r: "round64 x = (if 2 ^ 1024 \<le> v then NegInfinity
                          else if m = 0 then NegZero else Finite (- v))"
      using neg by (simp add: round64_def Let_def e_def m_def v_def infinity_of_def zero_of_def)
    have "(of_int 0 :: rat) \<le> \<bar>x\<bar> / 2 powi e" by simp
    then have "0 \<le> m" unfolding m_def by (rule round_half_even_ge)
    then have "0 \<le> v" by (simp add: v_def)
    then show ?thesis
      by (simp add: r js_le_def)
  qed
next
  case False
  then have pos: "0 < x" by simp
  define E where "E = floor_log2 x"
  define e where "e = max (E - 52) (- 1074)"
  define m where "m = round_half_even (x / 2 powi e)"
  from floor_log2_bounds(1) [OF pos] assms have "(2::rat) powi E \<le> 2 powi (- 1)"
    by (simp add: E_def)
  then have "E \<le> - 1" by (simp only: two_powi_le_iff)
  then have e53: "e \<le> - 53" by (simp add: e_def)
  define n where "n = nat (- 1 - e)"
  have n: "(2::rat) powi (- 1 - e) = of_int (2 ^ n)"
    using e53 by (simp add: n_def power_int_def)
  have "x / 2 powi e \<le> (1 / 2) / 2 powi e"
    using assms by (intro divide_right_mono) simp_all
  also have "\<dots> = 2 powi (- 1 - e)"
    by (simp add: power_int_diff power_int_minus field_simps)
  finally have "x / 2 powi e \<le> of_int (2 ^ n)" by (simp add: n)
  then have "m \<le> 2 ^ n" unfolding m_def by (rule round_half_even_le)
  then have "(of_int m :: rat) \<le> of_int (2 ^ n)" by (simp only: of_int_le_iff)
  then have "of_int m * (2::rat) powi e \<le> of_int (2 ^ n) * 2 powi e"
    by (simp add: mult_right_mono)
  also have "\<dots> = 2 powi (- 1 - e) * 2 powi e" by (simp add: n)
  also have "\<dots> = 1 / 2"
    by (simp add: power_int_diff power_int_minus field_simps)
  finally have v: "of_int m * (2::rat) powi e \<le> 1 / 2" .
  then have "\<not> 2 ^ 1024 \<le> of_int m * (2::rat) powi e"
    by (simp add: not_le)
  with v pos show ?thesis
    by (simp add: round64_def Let_def E_def [symmetric] e_def [symmetric] m_def [symmetric]
          js_le_def zero_of_def)
qed

lemma round64_gt_half:
  assumes "1 / 2 + 1 / 2 ^ 54 < x"
  shows "\<not> js_le (round64 x) (Finite (1 / 2))"
proof -
  from assms have half: "1 / 2 < x"
    by (rule less_trans [rotated]) simp
  then have pos: "0 < x" by simp
  define E where "E = floor_log2 x"
  define e where "e = max (E - 52) (- 1074)"
  define m where "m = round_half_even (x / 2 powi e)"
  from floor_log2_bounds(2) [OF pos] half have "(2::rat) powi (- 1) < 2 powi (E + 1)"
    by (simp add: E_def)
  then have E1: "- 1 \<le> E" by (simp only: two_powi_less_iff)
  then have e: "e = E - 52" by (simp add: e_def)
  have big: "1 / 2 < of_int m * (2::rat) powi e"
  proof (cases "E = - 1")
    case True
    then have e53: "e = - 53" by (simp add: e)
    have "of_int (2 ^ 52) + 1 / 2 < x * 2 ^ 53"
      using assms by (simp add: field_simps)
    also have "x * 2 ^ 53 = x / 2 powi e"
      by (simp add: e53 power_int_minus field_simps)
    finally have "2 ^ 52 + 1 \<le> m" unfolding m_def by (rule round_half_even_gt)
    then have "(of_int (2 ^ 52 + 1) :: rat) \<le> of_int m" by (simp only: of_int_le_iff)
    then have "of_int (2 ^ 52 + 1) * (2::rat) powi e \<le> of_int m * 2 powi e"
      by (simp add: mult_right_mono)
    moreover have "1 / 2 < of_int (2 ^ 52 + 1) * (2::rat) powi e"
      by (simp add: e53 power_int_minus field_simps)
    ultimately show ?thesis by (rule less_le_trans [rotated])
  next
    case False
    with E1 have E0: "0 \<le> E" by simp
    from floor_log2_bounds(1) [OF pos] have "(2::rat) powi E \<le> x" by (simp add: E_def)
    then have "2 powi E / 2 powi e \<le> x / 2 powi e"
      by (intro divide_right_mono) simp_all
    moreover have "(2::rat) powi E / 2 powi e = of_int (2 ^ 52)"
      by (simp add: e power_int_diff [symmetric])
    ultimately have "of_int (2 ^ 52) \<le> x / 2 powi e" by simp
    then have "2 ^ 52 \<le> m" unfolding m_def by (rule round_half_even_ge)
    then have le52: "(of_int (2 ^ 52) :: rat) \<le> of_int m" by (simp only: of_int_le_iff)
    have "(1::rat) \<le> 2 powi E" using E0 by simp
    also have "(2::rat) powi E = 2 powi (52 + e)" by (simp add: e)
    also have "\<dots> = 2 powi 52 * 2 powi e" by (rule power_int_add) simp
    also have "\<dots> = of_int (2 ^ 52) * 2 powi e" by simp
    also have "\<dots> \<le> of_int m * 2 powi e"
      using le52 by (intro mult_right_mono) simp_all
    finally show ?thesis by simp
  qed
  then have m0: "m \<noteq> 0" by auto
  from big m0 pos show ?thesis
    by (simp add: round64_def Let_def E_def [symmetric] e_def [symmetric] m_def [symmetric]
          js_le_def infinity_of_def not_le)
qed

lemma dbl_pos: "0 < m \<Longrightarrow> 0 < dbl m e"
  by (simp add: dbl_def)

lemma dbl_abs: "\<bar>dbl m e\<bar> = dbl \<bar>m\<bar> e"
  by (simp add: dbl_def abs_mult)

lemma dbl_scaled:
  assumes "k \<le> e"
  shows "dbl m e = of_int (m * 2 ^ nat (e - k)) * 2 powi k"
proof -
  have "(2::rat) powi e = 2 powi ((e - k) + k)" by simp
  also have "\<dots> = 2 powi (e - k) * 2 powi k" by (rule power_int_add) simp
  also have "(2::rat) powi (e - k) = 2 ^ nat (e - k)"
    using assms by (simp add: power_int_def)
  finally show ?thesis by (simp add: dbl_def)
qed

lemma double_quotient_gap_pos:
  assumes ma: "0 < ma" "ma < 2 ^ 53" and mb: "0 < mb" "mb < 2 ^ 53"
    and half: "1 / 2 < dbl ma ea / dbl mb eb"
  shows "1 / 2 + 1 / 2 ^ 54 < dbl ma ea / dbl mb eb"
proof -
  define k where "k = min (ea + 1) eb"
  define A where "A = ma * 2 ^ nat (ea + 1 - k)"
  define B where "B = mb * 2 ^ nat (eb - k)"
  define u where "u = (2::rat) powi k"
  have u: "0 < u" by (simp add: u_def)
  define a2 where "a2 = 2 * dbl ma ea"
  define bb where "bb = dbl mb eb"
  have b: "bb = of_int B * u"
    unfolding B_def u_def bb_def by (rule dbl_scaled) (simp add: k_def)
  have "dbl ma (ea + 1) = of_int A * u"
    unfolding A_def u_def by (rule dbl_scaled) (simp add: k_def)
  moreover have "dbl ma (ea + 1) = 2 * dbl ma ea"
    by (simp add: dbl_def power_int_add)
  ultimately have a: "a2 = of_int A * u" by (simp add: a2_def)
  have bpos: "0 < bb" unfolding bb_def using mb(1) by (rule dbl_pos)
  from half bpos have "bb < a2"
    by (simp add: field_simps a2_def bb_def)
  then have "of_int B * u < of_int A * u" by (simp only: a b)
  with u have "(of_int B :: rat) < of_int A" by (simp only: mult_less_cancel_right_pos)
  then have BA: "B < A" by (simp only: of_int_less_iff)
  have B53: "B < 2 ^ 53"
  proof (cases "eb \<le> ea + 1")
    case True
    then have "k = eb" by (simp add: k_def)
    then show ?thesis using mb(2) by (simp add: B_def)
  next
    case False
    then have "k = ea + 1" by (simp add: k_def)
    then have "A = ma" by (simp add: A_def)
    with BA ma(2) show ?thesis by simp
  qed
  from BA have "1 \<le> A - B" by simp
  then have "2 ^ 53 * 1 \<le> (2 ^ 53 :: int) * (A - B)"
    by (intro mult_left_mono) simp_all
  with B53 have "B < 2 ^ 53 * (A - B)" by simp
  then have "(of_int B :: rat) < of_int (2 ^ 53 * (A - B))" by (simp only: of_int_less_iff)
  then have "(of_int B :: rat) < 2 ^ 53 * (of_int A - of_int B)" by simp
  with u have "of_int B * u < (2 ^ 53 * (of_int A - of_int B)) * u"
    by (simp only: mult_less_cancel_right_pos)
  also have "(2 ^ 53 * (of_int A - of_int B)) * u = 2 ^ 53 * (a2 - bb)"
    by (simp add: a b algebra_simps)
  finally have "bb < 2 ^ 53 * (a2 - bb)" by (simp only: b)
  then have "(1 / 2 + 1 / 2 ^ 54) * bb < dbl ma ea"
    by (simp add: a2_def field_simps)
  with bpos have "1 / 2 + 1 / 2 ^ 54 < dbl ma ea / bb"
    by (simp only: pos_less_divide_eq)
  then show ?thesis by (simp only: bb_def)
qed

lemma double_quotient_gap:
  assumes ma: "\<bar>ma\<bar> < 2 ^ 53" and mb: "\<bar>mb\<bar> < 2 ^ 53"
    and half: "1 / 2 < dbl ma ea / dbl mb eb"
  shows "1 / 2 + 1 / 2 ^ 54 < dbl ma ea / dbl mb eb"
proof -
  from half have pos: "0 < dbl ma ea / dbl mb eb"
    by (rule less_trans [rotated]) simp
  then have "dbl ma ea \<noteq> 0" and "dbl mb eb \<noteq> 0" by auto
  then have nz: "ma \<noteq> 0" "mb \<noteq> 0" by (auto simp: dbl_def)
  from pos have "\<bar>dbl ma ea / dbl mb eb\<bar> = dbl ma ea / dbl mb eb" by (rule abs_of_pos)
  moreover have "\<bar>dbl ma ea / dbl mb eb\<bar> = dbl \<bar>ma\<bar> ea / dbl \<bar>mb\<bar> eb"
    by (simp only: abs_divide dbl_abs)
  ultimately have eq: "dbl ma ea / dbl mb eb = dbl \<bar>ma\<bar> ea / dbl \<bar>mb\<bar> eb" by simp
  from nz ma mb half show ?thesis
    unfolding eq by (intro double_quotient_gap_pos) simp_all
qed

text \<open>
  The quotient of two doubles is at most one half after rounding exactly when it is before:
  one half is a double, and a quotient of two doubles above one half lies above the midpoint
  to the next double.
\<close>

lemma quotient_le_half:
  assumes ma: "\<bar>ma\<bar> < 2 ^ 53" and mb: "\<bar>mb\<bar> < 2 ^ 53" and nz: "mb \<noteq> 0"
  shows "js_le (js_div (Finite (dbl ma ea)) (Finite (dbl mb eb))) (Finite (1 / 2))
           \<longleftrightarrow> dbl ma ea / dbl mb eb \<le> 1 / 2"
proof (cases "ma = 0")
  case True
  then show ?thesis
    using nz by (simp add: js_div_def is_zero_def zero_of_def js_le_def dbl_def)
next
  case False
  with nz have d: "js_div (Finite (dbl ma ea)) (Finite (dbl mb eb))
                     = round64 (dbl ma ea / dbl mb eb)"
    by (simp add: js_div_def is_zero_def dbl_def)
  show ?thesis
  proof (cases "dbl ma ea / dbl mb eb \<le> 1 / 2")
    case True
    then show ?thesis using round64_le_half by (simp add: d)
  next
    case False
    then have "1 / 2 < dbl ma ea / dbl mb eb" by simp
    with ma mb have "1 / 2 + 1 / 2 ^ 54 < dbl ma ea / dbl mb eb"
      by (rule double_quotient_gap)
    then have "\<not> js_le (round64 (dbl ma ea / dbl mb eb)) (Finite (1 / 2))"
      by (rule round64_gt_half)
    with False show ?thesis by (simp add: d)
  qed
qed

section \<open>Properties of the necessity checker\<close>

lemma passed_is_comparison:
  "passed (necessity_verdict now expense revenue)
     = js_le (js_div expense revenue) (Finite (1 / 2))"
  by (simp add: necessity_verdict_def Let_def)

lemma passed_doubles:
  assumes "\<bar>ma\<bar> < 2 ^ 53" and "\<bar>mb\<bar> < 2 ^ 53" and "mb \<noteq> 0"
  shows "passed (necessity_verdict now (Finite (dbl ma ea)) (Finite (dbl mb eb)))
           \<longleftrightarrow> dbl ma ea / dbl mb eb \<le> 1 / 2"
  unfolding passed_is_comparison using assms by (rule quotient_le_half)

lemma passed_zero_revenue:
  "passed (necessity_verdict now (Finite a) (Finite 0)) = (a < 0)"
  by (simp add: passed_is_comparison js_div_def js_le_def is_zero_def infinity_of_def)

lemma dbl_exponent_0: "dbl m 0 = of_int m"
  by (simp add: dbl_def)

text \<open>
  Claim C6. For a positive expense amount and a positive revenue, any two doubles, both
  necessity checkers return a verdict whose \<open>passed\<close> is true exactly when the ratio of
  expense to revenue is at most one half: the rounding of the quotient never moves it across
  the threshold. A ratio of exactly 0.5 passes and a ratio of 0.500001 fails.
\<close>

theorem necessity_threshold_inclusive:
  "(0 < ma \<and> ma < 2 ^ 53 \<and> 0 < mb \<and> mb < 2 ^ 53 \<longrightarrow>
      (\<exists>v. verifyNecessary now (Finite (dbl ma ea)) (Finite (dbl mb eb)) = Inr v
           \<and> isNecessaryTool_execute now (Finite (dbl ma ea)) (Finite (dbl mb eb)) = Inr v
           \<and> (passed v \<longleftrightarrow> dbl ma ea / dbl mb eb \<le> 1 / 2)))
   \<and> (\<exists>v. verifyNecessary now (Finite 35000) (Finite 70000) = Inr v \<and> passed v)
   \<and> (\<exists>v. verifyNecessary now (Finite 500001) (Finite 1000000) = Inr v \<and> \<not> passed v)"
proof (intro conjI impI)
  assume "0 < ma \<and> ma < 2 ^ 53 \<and> 0 < mb \<and> mb < 2 ^ 53"
  then have "\<bar>ma\<bar> < 2 ^ 53" "\<bar>mb\<bar> < 2 ^ 53" "mb \<noteq> 0" by simp_all
  then have "passed (necessity_verdict now (Finite (dbl ma ea)) (Finite (dbl mb eb)))
               \<longleftrightarrow> dbl ma ea / dbl mb eb \<le> 1 / 2"
    by (rule passed_doubles)
  then show "\<exists>v. verifyNecessary now (Finite (dbl ma ea)) (Finite (dbl mb eb)) = Inr v
           \<and> isNecessaryTool_execute now (Finite (dbl ma ea)) (Finite (dbl mb eb)) = Inr v
           \<and> (passed v \<longleftrightarrow> dbl ma ea / dbl mb eb \<le> 1 / 2)"
    by (simp add: verifyNecessary_def isNecessaryTool_execute_def)
next
  have "passed (necessity_verdict now (Finite (dbl 35000 0)) (Finite (dbl 70000 0)))
          \<longleftrightarrow> dbl 35000 0 / dbl 70000 0 \<le> 1 / 2"
    by (rule passed_doubles) simp_all
  then have "passed (necessity_verdict now (Finite 35000) (Finite 70000))"
    by (simp add: dbl_exponent_0)
  then show "\<exists>v. verifyNecessary now (Finite 35000) (Finite 70000) = Inr v \<and> passed v"
    by (simp add: verifyNecessary_def)
next
  have "passed (necessity_verdict now (Finite (dbl 500001 0)) (Finite (dbl 1000000 0)))
          \<longleftrightarrow> dbl 500001 0 / dbl 1000000 0 \<le> 1 / 2"
    by (rule passed_doubles) simp_all
  then have "\<not> passed (necessity_verdict now (Finite 500001) (Finite 1000000))"
    by (simp add: dbl_exponent_0)
  then show "\<exists>v. verifyNecessary now (Finite 500001) (Finite 1000000) = Inr v \<and> \<not> passed v"
    by (simp add: verifyNecessary_def)
qed

text \<open>
  The theorem at the two examples of the specification: 30000 of 70000 passes, 40000 of
  70000 does not.
\<close>

theorem necessity_threshold_inclusive_witness:
  "(0 :: int) < 30000 \<and> (30000 :: int) < 2 ^ 53 \<and> (0 :: int) < 70000 \<and> (70000 :: int) < 2 ^ 53
   \<and> (\<exists>v. verifyNecessary ''2025-01-01T00:00:00.000Z'' (Finite 30000) (Finite 70000) = Inr v
          \<and> passed v)
   \<and> (\<exists>v. verifyNecessary ''2025-01-01T00:00:00.000Z'' (Finite 40000) (Finite 70000) = Inr v
          \<and> \<not> passed v)"
proof -
  have h: "(0 :: int) < 30000 \<and> (30000 :: int) < 2 ^ 53 \<and> (0 :: int) < 70000 \<and> (70000 :: int) < 2 ^ 53"
    and h': "(0 :: int) < 40000 \<and> (40000 :: int) < 2 ^ 53 \<and> (0 :: int) < 70000 \<and> (70000 :: int) < 2 ^ 53"
    by simp_all
  from necessity_threshold_inclusive [of 30000 70000 "''2025-01-01T00:00:00.000Z''" 0 0] h
  obtain v where "verifyNecessary ''2025-01-01T00:00:00.000Z'' (Finite (dbl 30000 0)) (Finite (dbl 70000 0)) = Inr v"
    and "passed v \<longleftrightarrow> dbl 30000 0 / dbl 70000 0 \<le> 1 / 2"
    by blast
  then have 1: "\<exists>v. verifyNecessary ''2025-01-01T00:00:00.000Z'' (Finite 30000) (Finite 70000) = Inr v
          \<and> passed v"
    by (simp add: dbl_exponent_0)
  from necessity_threshold_inclusive [of 40000 70000 "''2025-01-01T00:00:00.000Z''" 0 0] h'
  obtain w where "verifyNecessary ''2025-01-01T00:00:00.000Z'' (Finite (dbl 40000 0)) (Finite (dbl 70000 0)) = Inr w"
    and "passed w \<longleftrightarrow> dbl 40000 0 / dbl 70000 0 \<le> 1 / 2"
    by blast
  then have 2: "\<exists>v. verifyNecessary ''2025-01-01T00:00:00.000Z'' (Finite 40000) (Finite 70000) = Inr v
          \<and> \<not> passed v"
    by (simp add: dbl_exponent_0)
  from h 1 2 show ?thesis by blast
qed

text \<open>The details of the two examples, with the ratios 42.9% and 57.1%.\<close>

lemma details_30000_70000:
  "details (necessity_verdict ''2025-01-01T00:00:00.000Z'' (Finite 30000) (Finite 70000))
     = ''PASSED: Expense-to-Revenue ratio is 42.9% (within 50% threshold).''"
  by code_simp

lemma details_40000_70000:
  "details (necessity_verdict ''2025-01-01T00:00:00.000Z'' (Finite 40000) (Finite 70000))
     = ''FAILED: Expense-to-Revenue ratio is 57.1% (exceeds 50% threshold).''"
  by code_simp





section \<open>Properties of the audit ledger\<close>

text \<open>
  Claim C8. An append puts the new entry at the head of the ledger and leaves the entries
  that were there as they were, behind it. After three appends with the actions A, B and C
  the ledger starts with the entries of C, B and A, in this order, followed by the entries
  it had before.
\<close>

theorem ledger_append_order:
  "tl (addEntry env act det src st meta prev) = prev
   \<and> action (hd (addEntry env act det src st meta prev)) = act
   \<and> map action (take 3 (addEntry e3 C d3 s3 st3 m3
                            (addEntry e2 B d2 s2 st2 m2
                              (addEntry e1 A d1 s1 st1 m1 prev)))) = [C, B, A]
   \<and> drop 3 (addEntry e3 C d3 s3 st3 m3
               (addEntry e2 B d2 s2 st2 m2
                 (addEntry e1 A d1 s1 st1 m1 prev))) = prev"
  by (simp add: addEntry_def Let_def)

section \<open>Properties of the policy gate of the auditor package\<close>

lemma pop_snoc: "pop (xs @ [x]) = Some x"
  by (simp add: pop_def)

lemma pop_filter_is_ordinary:
  "pop (filter is_ordinary_result h) = Some r \<Longrightarrow> is_ordinary_result r"
proof -
  assume a: "pop (filter is_ordinary_result h) = Some r"
  then have ne: "filter is_ordinary_result h \<noteq> []" and r: "r = last (filter is_ordinary_result h)"
    by (auto simp: pop_def split: if_splits)
  from ne have "last (filter is_ordinary_result h) \<in> set (filter is_ordinary_result h)"
    by (rule last_in_set)
  with r show ?thesis by simp
qed

text \<open>What the gate does with the most recent result of an ordinary check.\<close>

lemma gate_unfold:
  "isNecessaryEnabled (Some h) =
     (case pop (filter is_ordinary_result h) of
        None \<Rightarrow> Inr False
      | Some r \<Rightarrow>
          (case JSON_parse (item_output r) of
             Inl e \<Rightarrow> Inl e
           | Inr out \<Rightarrow>
               (case get_passed out of
                  Inl e \<Rightarrow> Inl e
                | Inr p \<Rightarrow> Inr (p = Some (JBool True)))))"
proof (cases "pop (filter is_ordinary_result h)")
  case None
  then show ?thesis by (simp add: isNecessaryEnabled_def)
next
  case (Some r)
  then have "item_type r = ''function_call_result''"
    using pop_filter_is_ordinary [of h r] by (simp add: is_ordinary_result_def)
  with Some show ?thesis
    by (simp add: isNecessaryEnabled_def split: sum.splits)
qed

lemma gate_reads_last_only:
  assumes "is_ordinary_result r" and "\<forall>x \<in> set later. \<not> is_ordinary_result x"
  shows "isNecessaryEnabled (Some (earlier @ r # later)) = isNecessaryEnabled (Some [r])"
proof -
  from assms(2) have "filter is_ordinary_result later = []"
    by (simp add: filter_empty_conv)
  with assms(1) have "filter is_ordinary_result (earlier @ r # later)
                        = filter is_ordinary_result earlier @ [r]"
    by simp
  then have "pop (filter is_ordinary_result (earlier @ r # later)) = Some r"
    by (simp add: pop_snoc)
  moreover from assms(1) have "pop (filter is_ordinary_result [r]) = Some r"
    by (simp add: pop_def)
  ultimately show ?thesis
    by (simp add: gate_unfold)
qed

text \<open>The gate on the three example payloads, evaluated.\<close>

lemma gate_pass: "isNecessaryEnabled (Some [ordinary_result payload_pass]) = Inr True" by code_simp
lemma gate_fail: "isNecessaryEnabled (Some [ordinary_result payload_fail]) = Inr False" by code_simp
lemma gate_truncated: "isNecessaryEnabled (Some [ordinary_result payload_truncated]) = Inl SyntaxError"
  by code_simp
lemma parse_truncated: "JSON_parse payload_truncated = Inl SyntaxError" by code_simp
lemma ordinary_result_is_ordinary: "is_ordinary_result (ordinary_result p)"
  by (simp add: is_ordinary_result_def ordinary_result_def)

text \<open>
  The gate of the auditor package answers from the most recent result of an ordinary check
  alone: it enables the necessity checker exactly when that result exists and its payload
  parses to an object whose member \<open>passed\<close> is \<open>true\<close>.
\<close>

lemma gate_most_recent_wins:
  "(isNecessaryEnabled (Some h) = Inr True \<longleftrightarrow>
      (\<exists>r out. pop (filter is_ordinary_result h) = Some r
               \<and> JSON_parse (item_output r) = Inr out
               \<and> get_passed out = Inr (Some (JBool True))))"
  by (auto simp: gate_unfold split: option.splits sum.splits)

lemma gate_examples:
  "isNecessaryEnabled (Some [ordinary_result payload_pass, ordinary_result payload_fail]) = Inr False"
  "isNecessaryEnabled (Some [ordinary_result payload_fail, ordinary_result payload_pass]) = Inr True"
  "isNecessaryEnabled (Some []) = Inr False"
  "isNecessaryEnabled None = Inr False"
proof -
  have "isNecessaryEnabled (Some ([ordinary_result payload_pass] @ ordinary_result payload_fail # []))
          = isNecessaryEnabled (Some [ordinary_result payload_fail])"
    by (rule gate_reads_last_only) (simp_all add: ordinary_result_is_ordinary)
  then show "isNecessaryEnabled (Some [ordinary_result payload_pass, ordinary_result payload_fail]) = Inr False"
    using gate_fail by simp
  have "isNecessaryEnabled (Some ([ordinary_result payload_fail] @ ordinary_result payload_pass # []))
          = isNecessaryEnabled (Some [ordinary_result payload_pass])"
    by (rule gate_reads_last_only) (simp_all add: ordinary_result_is_ordinary)
  then show "isNecessaryEnabled (Some [ordinary_result payload_fail, ordinary_result payload_pass]) = Inr True"
    using gate_pass by simp
  show "isNecessaryEnabled (Some []) = Inr False"
    by (simp add: isNecessaryEnabled_def pop_def)
  show "isNecessaryEnabled None = Inr False"
    by (simp add: isNecessaryEnabled_def)
qed

subsection \<open>Payloads that are not JSON\<close>

text \<open>
  The gate calls \<open>JSON.parse\<close> on the payload of the most recent result of an ordinary
  check, outside any \<open>try\<close>. A truncated payload alone makes the gate raise the syntax
  error; followed by a passing result it is never read, and the gate returns true.
\<close>

lemma gate_truncated_payload_examples:
  "isNecessaryEnabled (Some [ordinary_result payload_truncated]) = Inl SyntaxError
   \<and> isNecessaryEnabled (Some [ordinary_result payload_truncated, ordinary_result payload_pass])
       = Inr True"
proof -
  have "isNecessaryEnabled (Some ([ordinary_result payload_truncated] @ ordinary_result payload_pass # []))
          = isNecessaryEnabled (Some [ordinary_result payload_pass])"
    by (rule gate_reads_last_only) (simp_all add: ordinary_result_is_ordinary)
  with gate_truncated gate_pass show ?thesis by simp
qed

lemma parse_corrupted: "JSON_parse payload_corrupted = Inl SyntaxError"
  by code_simp

lemma gate_corrupted: "isNecessaryEnabled (Some [ordinary_result payload_corrupted]) = Inl SyntaxError"
  by code_simp

text \<open>
  Claim C2. The claim, and the repository's own test of the gate (\<open>should return FALSE if
  the tool output is corrupted JSON\<close>, which expects \<open>false\<close> and no crash), say that a
  payload that is not JSON makes the gate return false without raising. The code does
  otherwise: when the payload of the most recent result of an ordinary check does not parse,
  the gate raises the error of \<open>JSON.parse\<close>, whatever the history before it; entries
  before the most recent result of an ordinary check are never read. On the history of the
  test, the one result with the payload \<open>{ "passed": true, "details": "corrupted... \<close>,
  the gate raises \<open>SyntaxError\<close> and does not return false; likewise on the truncated
  verdict.
\<close>

theorem gate_raises_on_invalid_payload:
  "(pop (filter is_ordinary_result h) = Some r \<and> JSON_parse (item_output r) = Inl e
      \<longrightarrow> isNecessaryEnabled (Some h) = Inl e)
   \<and> (is_ordinary_result r \<and> (\<forall>x \<in> set later. \<not> is_ordinary_result x)
      \<longrightarrow> isNecessaryEnabled (Some (earlier @ r # later)) = isNecessaryEnabled (Some [r]))
   \<and> isNecessaryEnabled (Some [ordinary_result payload_corrupted]) = Inl SyntaxError
   \<and> isNecessaryEnabled (Some [ordinary_result payload_corrupted]) \<noteq> Inr False
   \<and> isNecessaryEnabled (Some [ordinary_result payload_truncated]) = Inl SyntaxError"
proof (intro conjI impI)
  assume "pop (filter is_ordinary_result h) = Some r \<and> JSON_parse (item_output r) = Inl e"
  then show "isNecessaryEnabled (Some h) = Inl e"
    by (simp add: gate_unfold)
next
  assume "is_ordinary_result r \<and> (\<forall>x \<in> set later. \<not> is_ordinary_result x)"
  then show "isNecessaryEnabled (Some (earlier @ r # later)) = isNecessaryEnabled (Some [r])"
    using gate_reads_last_only by blast
next
  show "isNecessaryEnabled (Some [ordinary_result payload_corrupted]) = Inl SyntaxError"
    by (rule gate_corrupted)
  show "isNecessaryEnabled (Some [ordinary_result payload_corrupted]) \<noteq> Inr False"
    by (simp add: gate_corrupted)
  show "isNecessaryEnabled (Some [ordinary_result payload_truncated]) = Inl SyntaxError"
    by (rule gate_truncated)
qed

text \<open>
  The theorem at two histories of a passing result and the corrupted one of the test, in both
  orders.
\<close>

theorem gate_raises_on_invalid_payload_witness:
  "pop (filter is_ordinary_result [ordinary_result payload_pass, ordinary_result payload_corrupted])
     = Some (ordinary_result payload_corrupted)
   \<and> JSON_parse (item_output (ordinary_result payload_corrupted)) = Inl SyntaxError
   \<and> isNecessaryEnabled (Some [ordinary_result payload_pass, ordinary_result payload_corrupted])
       = Inl SyntaxError
   \<and> is_ordinary_result (ordinary_result payload_pass)
   \<and> isNecessaryEnabled (Some [ordinary_result payload_corrupted, ordinary_result payload_pass])
       = isNecessaryEnabled (Some [ordinary_result payload_pass])
   \<and> isNecessaryEnabled (Some [ordinary_result payload_corrupted, ordinary_result payload_pass])
       = Inr True"
proof -
  have 1: "pop (filter is_ordinary_result [ordinary_result payload_pass, ordinary_result payload_corrupted])
     = Some (ordinary_result payload_corrupted)"
    by (simp add: pop_def ordinary_result_is_ordinary)
  have 2: "JSON_parse (item_output (ordinary_result payload_corrupted)) = Inl SyntaxError"
    by (simp add: ordinary_result_def parse_corrupted)
  have 3: "is_ordinary_result (ordinary_result payload_pass)"
    by (rule ordinary_result_is_ordinary)
  have 4: "\<forall>x \<in> set []. \<not> is_ordinary_result x"
    by simp
  from gate_raises_on_invalid_payload
         [of "[ordinary_result payload_pass, ordinary_result payload_corrupted]"
             "ordinary_result payload_corrupted" SyntaxError] 1 2
  have 5: "isNecessaryEnabled (Some [ordinary_result payload_pass, ordinary_result payload_corrupted])
       = Inl SyntaxError"
    by blast
  from gate_raises_on_invalid_payload
         [of h0 "ordinary_result payload_pass" e0 "[]" "[ordinary_result payload_corrupted]"
          for h0 e0] 3 4
  have 6: "isNecessaryEnabled (Some ([ordinary_result payload_corrupted] @ ordinary_result payload_pass # []))
       = isNecessaryEnabled (Some [ordinary_result payload_pass])"
    by blast
  from 1 2 3 5 6 gate_pass show ?thesis by simp
qed

section \<open>Properties of the policy state of the chat service\<close>

text \<open>
  The flag \<open>ordinaryPassed\<close> is set by a passing ordinary check and never cleared: after
  any calls it tells whether some call passed, not whether the last one did.
\<close>

lemma ordinary_call_latch:
  "ordinaryPassed (ordinary_call now st args) \<longleftrightarrow>
     ordinaryPassed st \<or> passed (verifyOrdinary now (fst args) (snd args))"
  by (simp add: ordinary_call_def Let_def)

lemma foldl_latch:
  "ordinaryPassed (foldl (ordinary_call now) st calls) \<longleftrightarrow>
     ordinaryPassed st \<or> (\<exists>c \<in> set calls. passed (verifyOrdinary now (fst c) (snd c)))"
  by (induction calls arbitrary: st) (auto simp: ordinary_call_latch)

lemma policy_state_ever_passed:
  "ordinaryPassed (policy_after now calls) \<longleftrightarrow>
     (\<exists>c \<in> set calls. passed (verifyOrdinary now (fst c) (snd c)))"
  by (simp add: policy_after_def foldl_latch)

text \<open>
  Claim C1 asks for the necessity checker to be enabled exactly when the most recent ordinary
  verdict passed. The gate of the auditor package does that (\<open>gate_most_recent_wins\<close>,
  \<open>gate_examples\<close>). The tool loop of the chat service does not: after a passing check of
  a truck and a failing check of a laptop, in this order, the flag is still set and
  \<open>verify_necessary\<close> is among the tools offered.
\<close>

theorem policy_state_latches:
  "isNecessaryEnabled (Some [ordinary_result payload_pass, ordinary_result payload_fail])
     = Inr False
   \<and> passed (verifyOrdinary now ''238350'' ''truck'') = True
   \<and> passed (verifyOrdinary now ''238350'' ''laptop'') = False
   \<and> ordinaryPassed (policy_after now [(''238350'', ''truck''), (''238350'', ''laptop'')]) = True
   \<and> ''verify_necessary'' \<in> set (getAllowedTools
          (policy_after now [(''238350'', ''truck''), (''238350'', ''laptop'')]))"
proof -
  have t: "passed (verifyOrdinary now ''238350'' ''truck'')"
    by (simp add: verifyOrdinary_def query_def Let_def toLowerCase_truck ordinary_items_def)
  have l: "\<not> passed (verifyOrdinary now ''238350'' ''laptop'')"
    by (simp add: verifyOrdinary_def query_def Let_def toLowerCase_laptop ordinary_items_def)
  from t have p: "ordinaryPassed (policy_after now [(''238350'', ''truck''), (''238350'', ''laptop'')])"
    by (simp add: policy_state_ever_passed)
  then have "''verify_necessary'' \<in> set (getAllowedTools
          (policy_after now [(''238350'', ''truck''), (''238350'', ''laptop'')]))"
    by (simp add: getAllowedTools_def)
  with t l p gate_examples(1) show ?thesis by simp
qed

end
